theory Spec2Isabelle
  imports Main "HOL-Library.Signed_Division" "HOL-Library.AList"
begin

section \<open>The Warlot Go SDK: request execution, row streaming, pagination\<close>

text \<open>
  A shallow embedding of the request engine of \<^verbatim>\<open>warlot-go/warlot\<close>:
  the retrying executors \<^verbatim>\<open>doJSON\<close> and \<^verbatim>\<open>doRequest\<close> with their helpers,
  the streaming \<^verbatim>\<open>RowScanner\<close> and the \<^verbatim>\<open>Pager\<close>.

  Conventions.
  \<^item> A Go \<^verbatim>\<open>string\<close> or \<^verbatim>\<open>[]byte\<close> is a \<^typ>\<open>string\<close>: a list of bytes.
  \<^item> A Go \<^verbatim>\<open>int\<close> and a \<^verbatim>\<open>time.Duration\<close> (nanoseconds) are values of
    \<^typ>\<open>int\<close> taken as 64-bit; where the code adds or multiplies, the wrap-around is
    written out with \<open>wrap64\<close>. Go's \<^verbatim>\<open>/\<close> truncates towards zero: \<open>sdiv\<close>.
  \<^item> A Go \<^verbatim>\<open>error\<close> is a value of the datatype \<open>go_error\<close>; a \<^verbatim>\<open>nil\<close> error is
    \<open>None\<close>.
  \<^item> What the code calls but does not define (the HTTP transport, the clock, the
    JSON codec applied to caller types) is a parameter of the model, gathered in the
    record \<open>env\<close>.
  \<^item> The logger and the hooks are observers: each call of one is an event of the
    trace a run returns, next to the requests handed to the transport and the backoff
    sleeps. A hook that changes the request or the response it is shown is outside
    the model.
  \<^item> A \<^verbatim>\<open>for\<close> loop whose counter may wrap is a \<^theory_text>\<open>partial_function\<close> in the
    option monad: \<open>None\<close> is a call that does not return.
\<close>

subsection \<open>Machine integers\<close>

text \<open>The value a 64-bit signed integer holds after an operation whose exact result
  is \<open>x\<close>.\<close>

definition wrap64 :: "int \<Rightarrow> int" where
  "wrap64 x = (x + 2 ^ 63) mod 2 ^ 64 - 2 ^ 63"

subsection \<open>JSON values and decoder tokens\<close>

text \<open>A decoded JSON value. A number keeps its literal (Go decodes it to a
  \<^verbatim>\<open>float64\<close>, which is not modelled). A \<open>token\<close> is what
  \<^verbatim>\<open>json.Decoder.Token\<close> returns: a delimiter or a scalar value.\<close>

datatype json =
    JNull
  | JBool bool
  | JNumber string
  | JString string
  | JArray "json list"
  | JObject "(string \<times> json) list"

datatype token = Delim char | Value json

subsection \<open>Errors\<close>

text \<open>\<^verbatim>\<open>errors.go\<close>: the structured error of a non-2xx response. \<open>Details\<close>, an
  \<^verbatim>\<open>interface{}\<close> in the code, is the decoded value of the \<^verbatim>\<open>details\<close> member, \<open>None\<close>
  for \<^verbatim>\<open>nil\<close>.\<close>

record APIError =
  StatusCode :: int
  Body :: string
  Message :: string
  Code :: string
  Details :: "json option"

text \<open>The error values the engine builds or passes on. \<open>Foreign\<close> is an error made
  outside this package (transport, context, codec of a caller type); \<open>IoEOF\<close>,
  \<open>IoUnexpectedEOF\<close> and \<open>SyntaxError\<close> are the JSON decoder's;
  \<open>MarshalRequest e\<close> is \<^verbatim>\<open>fmt.Errorf("marshal request: %w", e)\<close>;
  \<open>Wrapped m u e\<close> is \<^verbatim>\<open>fmt.Errorf("%s %s: %w", method, u, e)\<close>;
  \<open>DecodeResponse e body\<close> is \<^verbatim>\<open>fmt.Errorf("decode response: %w (body=%s)", e, body)\<close>;
  \<open>FailedAfter n e\<close> is
  \<^verbatim>\<open>fmt.Errorf("warlot request failed after %d attempts: %w", n, e)\<close>;
  the last two are the errors of \<^verbatim>\<open>stream.go\<close>, holding the token that was
  formatted into the message.\<close>

datatype go_error =
    Foreign string
  | IoEOF
  | IoUnexpectedEOF
  | SyntaxError string
  | Api APIError
  | MarshalRequest go_error
  | Wrapped string string go_error
  | DecodeResponse go_error string
  | FailedAfter int "go_error option"
  | UnexpectedTokenAfterRows token
  | UnexpectedResponseStart token

subsection \<open>Headers\<close>

text \<open>
  \<^verbatim>\<open>http.Header\<close> is a map from keys to lists of values. Here it is an association
  list with distinct keys, in one of the orders in which Go may range over the map; a
  nil header and an empty one are both \<open>[]\<close>.
  \<open>CanonicalMIMEHeaderKey\<close> is the function of \<^verbatim>\<open>net/textproto\<close> that \<^verbatim>\<open>Set\<close>,
  \<^verbatim>\<open>Add\<close> and \<^verbatim>\<open>Get\<close> apply to a key: a key made of token bytes only gets an
  upper-case letter first and after each hyphen and lower-case letters elsewhere; any
  other key is left as it is.
\<close>

type_synonym header = "(string \<times> string list) list"

definition isLower :: "char \<Rightarrow> bool" where
  "isLower c = (97 \<le> (of_char c :: nat) \<and> (of_char c :: nat) \<le> 122)"

definition isUpper :: "char \<Rightarrow> bool" where
  "isUpper c = (65 \<le> (of_char c :: nat) \<and> (of_char c :: nat) \<le> 90)"

definition toUpper :: "char \<Rightarrow> char" where
  "toUpper c = (if isLower c then char_of ((of_char c :: nat) - 32) else c)"

definition toLower :: "char \<Rightarrow> char" where
  "toLower c = (if isUpper c then char_of ((of_char c :: nat) + 32) else c)"

definition isDigit :: "char \<Rightarrow> bool" where
  "isDigit c = (48 \<le> (of_char c :: nat) \<and> (of_char c :: nat) \<le> 57)"

definition validHeaderFieldByte :: "char \<Rightarrow> bool" where
  "validHeaderFieldByte c =
     (isLower c \<or> isUpper c \<or> isDigit c \<or>
      c \<in> set [CHR ''!'', CHR ''#'', CHR ''$'', CHR ''%'', CHR ''&'', CHR 0x27, CHR ''*'',
                 CHR ''+'', CHR ''-'', CHR ''.'', CHR ''^'', CHR ''_'', CHR 0x60, CHR ''|'',
                 CHR ''~''])"

fun canonical_from :: "bool \<Rightarrow> string \<Rightarrow> string" where
  "canonical_from upper [] = []"
| "canonical_from upper (c # cs) =
     (let c' = (if upper then toUpper c else toLower c)
      in c' # canonical_from (c' = CHR ''-'') cs)"

definition CanonicalMIMEHeaderKey :: "string \<Rightarrow> string" where
  "CanonicalMIMEHeaderKey s =
     (if list_all validHeaderFieldByte s then canonical_from True s else s)"

text \<open>\<^verbatim>\<open>Header.Set\<close>, \<^verbatim>\<open>Header.Add\<close> and \<^verbatim>\<open>Header.Get\<close>; then \<^verbatim>\<open>mergeHeaders\<close>
  (part_011 lines 390-400), which adds every value of \<open>src\<close> to \<open>dst\<close>.\<close>

definition header_Set :: "header \<Rightarrow> string \<Rightarrow> string \<Rightarrow> header" where
  "header_Set h k v = AList.update (CanonicalMIMEHeaderKey k) [v] h"

definition header_Add :: "header \<Rightarrow> string \<Rightarrow> string \<Rightarrow> header" where
  "header_Add h k v =
     (let ck = CanonicalMIMEHeaderKey k
      in case map_of h ck of
           None \<Rightarrow> AList.update ck [v] h
         | Some vs \<Rightarrow> AList.update ck (vs @ [v]) h)"

definition header_Get :: "header \<Rightarrow> string \<Rightarrow> string" where
  "header_Get h k =
     (case map_of h (CanonicalMIMEHeaderKey k) of
        None \<Rightarrow> []
      | Some vs \<Rightarrow> (case vs of [] \<Rightarrow> [] | v # _ \<Rightarrow> v))"

definition mergeHeaders :: "header \<Rightarrow> header \<Rightarrow> header" where
  "mergeHeaders dst src = foldl (\<lambda>d (k, vs). foldl (\<lambda>d' v. header_Add d' k v) d vs) dst src"

text \<open>
  \<^verbatim>\<open>strings.EqualFold(s, t)\<close> for a second argument of ASCII bytes: two bytes match
  when they are equal up to ASCII letter case; besides, Unicode simple folding pairs
  the letter k with the Kelvin sign U+212A (bytes E2 84 AA) and the letter s with the
  long s U+017F (bytes C5 BF).
\<close>

fun EqualFold :: "string \<Rightarrow> string \<Rightarrow> bool" where
  "EqualFold [] [] = True"
| "EqualFold (a # s) [] = False"
| "EqualFold [] (b # t) = False"
| "EqualFold (a # s) (b # t) =
     (if toLower a = toLower b \<and> (of_char a :: nat) < 128 then EqualFold s t
      else if toLower b = CHR ''k'' \<and> a = CHR 0xE2 \<and> take 2 s = [CHR 0x84, CHR 0xAA]
        then EqualFold (drop 2 s) t
      else if toLower b = CHR ''s'' \<and> a = CHR 0xC5 \<and> take 1 s = [CHR 0xBF]
        then EqualFold (drop 1 s) t
      else False)"

text \<open>
  \<^verbatim>\<open>redactHeaders\<close> (part_011 lines 447-467). \<open>ellipsis\<close> is the string literal that
  the code puts between the two halves of a masked key, byte for byte as it stands in
  the source file: seven bytes. \<open>mask_value\<close> is the inner conditional of the loop:
  what is added to the copy for a value \<open>v\<close> of the header \<^verbatim>\<open>x-api-key\<close>.
\<close>

definition ellipsis :: string where
  "ellipsis = [CHR 0xC3, CHR 0xA2, CHR 0xE2, CHR 0x82, CHR 0xAC, CHR 0xC2, CHR 0xA6]"

definition mask_value :: "string \<Rightarrow> string" where
  "mask_value v =
     (if length v > 8 then take 4 v @ ellipsis @ drop (length v - 4) v else ''********'')"

definition redactHeaders :: "header \<Rightarrow> header" where
  "redactHeaders h =
     foldl (\<lambda>cp (k, vs).
        foldl (\<lambda>cp' v.
          if EqualFold k ''x-api-key'' then header_Add cp' k (mask_value v)
          else header_Add cp' k v) cp vs) [] h"


subsection \<open>Client, requests, responses\<close>

text \<open>
  \<^verbatim>\<open>Client\<close> (client.go). \<open>Logger\<close> tells whether a logger is set; \<open>BeforeHooks\<close> and
  \<open>AfterHooks\<close> are the numbers of hooks. \<^verbatim>\<open>HTTPClient\<close> is the transport of the
  environment below.
\<close>

record Client =
  BaseURL :: string
  APIKey :: string
  HolderID :: string
  ProjectName :: string
  UserAgent :: string
  MaxRetries :: int
  InitialBackoff :: int
  MaxBackoff :: int
  Logger :: bool
  BeforeHooks :: nat
  AfterHooks :: nat

text \<open>The request an attempt builds, and what the engine reads of a response: the
  status code, \<^verbatim>\<open>res.Header.Get("Retry-After")\<close>, and the bytes of the body (for
  \<^verbatim>\<open>doJSON\<close> what \<^verbatim>\<open>io.ReadAll\<close> returned, whose error the code ignores).\<close>

record request =
  req_method :: string
  req_url :: string
  req_header :: header
  req_body :: "string option"

record response =
  resp_status :: int
  resp_retry_after :: string
  resp_body :: string

text \<open>
  The calls a run makes to its surroundings, in order:
  \<^verbatim>\<open>Logger("request", ...)\<close> with method, URL, the headers it is given and the attempt;
  the i-th before-hook with the request; \<^verbatim>\<open>HTTPClient.Do\<close> with the request;
  \<^verbatim>\<open>Logger("response", ...)\<close> with method, URL, status and attempt; the i-th after-hook
  with the response (if any), the body read and the transport error (if any);
  \<^verbatim>\<open>jitterSleep\<close> with the duration of its timer and whether the context was done
  before the timer fired.
\<close>

datatype event =
    LoggerRequest string string header int
  | BeforeHook nat request
  | HTTPDo request
  | LoggerResponse string string int int
  | AfterHook nat "response option" string "go_error option"
  | JitterSleep int bool

text \<open>
  The surroundings of one call.
  \<^item> \<open>transport E n req\<close>: the result of the call of \<^verbatim>\<open>HTTPClient.Do(req)\<close> made
    after \<open>n\<close> earlier ones; an error means that no response was obtained.
  \<^item> \<open>newRequestError E m u\<close>: the error of \<^verbatim>\<open>http.NewRequestWithContext\<close>, if any.
  \<^item> \<open>unmarshalErrorBody E b\<close>: \<^verbatim>\<open>json.Unmarshal(b, &msg)\<close> in \<^verbatim>\<open>parseAPIError\<close>;
    when it succeeds, the fields \<^verbatim>\<open>message\<close>, \<^verbatim>\<open>error\<close>, \<^verbatim>\<open>code\<close>, \<^verbatim>\<open>details\<close>.
  \<^item> \<open>untilHTTPDate E n v\<close>: \<^verbatim>\<open>time.Until\<close> of \<^verbatim>\<open>http.ParseTime(v)\<close> in nanoseconds,
    read after \<open>n\<close> transport calls; \<open>None\<close> when \<open>v\<close> is not an HTTP date.
  \<^item> \<open>draw E n\<close>: the integer \<^verbatim>\<open>n % 1000\<close> that \<^verbatim>\<open>randFloat64\<close> divides by 1000, in
    the sleep after \<open>n\<close> earlier iterations.
  \<^item> \<open>ctxDoneInSleep E n\<close>: whether the context is done before the timer of that
    sleep fires.
\<close>

record env =
  transport :: "nat \<Rightarrow> request \<Rightarrow> go_error + response"
  newRequestError :: "string \<Rightarrow> string \<Rightarrow> go_error option"
  unmarshalErrorBody :: "string \<Rightarrow> (string \<times> string \<times> string \<times> json option) option"
  untilHTTPDate :: "nat \<Rightarrow> string \<Rightarrow> int option"
  draw :: "nat \<Rightarrow> int"
  ctxDoneInSleep :: "nat \<Rightarrow> bool"

text \<open>\<^verbatim>\<open>authHeaders\<close> (part_011 lines 362-375), \<^verbatim>\<open>statusOf\<close> (lines 402-408) and
  \<^verbatim>\<open>parseAPIError\<close> (lines 410-429).\<close>

definition authHeaders :: "Client \<Rightarrow> header" where
  "authHeaders c =
     (let h0 = [];
          h1 = (if APIKey c \<noteq> [] then header_Set h0 ''x-api-key'' (APIKey c) else h0);
          h2 = (if HolderID c \<noteq> [] then header_Set h1 ''x-holder-id'' (HolderID c) else h1);
          h3 = (if ProjectName c \<noteq> [] then header_Set h2 ''x-project-name'' (ProjectName c) else h2)
      in h3)"

definition statusOf :: "go_error + response \<Rightarrow> int" where
  "statusOf res = (case res of Inl e \<Rightarrow> 0 | Inr r \<Rightarrow> resp_status r)"

definition parseAPIError :: "env \<Rightarrow> int \<Rightarrow> string \<Rightarrow> APIError" where
  "parseAPIError E code b =
     (let apiErr = \<lparr>StatusCode = code, Body = b, Message = [], Code = [], Details = None\<rparr>
      in case unmarshalErrorBody E b of
           None \<Rightarrow> apiErr
         | Some (msg_Message, msg_Error, msg_Code, msg_Details) \<Rightarrow>
             apiErr\<lparr>Message := (if msg_Message \<noteq> [] then msg_Message
                                 else if msg_Error \<noteq> [] then msg_Error else []),
                    Code := msg_Code, Details := msg_Details\<rparr>)"

text \<open>\<^verbatim>\<open>strconv.Atoi\<close>: an optional sign, then decimal digits only, and a value that
  fits a 64-bit \<^verbatim>\<open>int\<close>. \<^verbatim>\<open>parseRetryAfter\<close> (part_011 lines 431-445) tries the
  seconds first and the HTTP date next.\<close>

definition digits_value :: "string \<Rightarrow> int" where
  "digits_value ds = foldl (\<lambda>acc d. acc * 10 + (int (of_char d) - 48)) 0 ds"

definition Atoi :: "string \<Rightarrow> int option" where
  "Atoi s =
     (let neg = (case s of [] \<Rightarrow> False | c # _ \<Rightarrow> c = CHR ''-'');
          ds = (case s of [] \<Rightarrow> [] | c # cs \<Rightarrow> if c = CHR ''-'' \<or> c = CHR ''+'' then cs else s)
      in if ds = [] \<or> \<not> list_all isDigit ds then None
         else
           (let v = (if neg then - digits_value ds else digits_value ds)
            in if - (2 ^ 63) \<le> v \<and> v < 2 ^ 63 then Some v else None))"

definition second :: int where
  "second = 1000000000"

definition millisecond :: int where
  "millisecond = 1000000"

definition parseRetryAfter :: "env \<Rightarrow> nat \<Rightarrow> string \<Rightarrow> int" where
  "parseRetryAfter E n v =
     (if v = [] then 0
      else
        (case Atoi v of
           Some secs \<Rightarrow>
             if secs \<ge> 0 then wrap64 (secs * second)
             else (case untilHTTPDate E n v of
                     Some d \<Rightarrow> if d > 0 then d else 0
                   | None \<Rightarrow> 0)
         | None \<Rightarrow>
             (case untilHTTPDate E n v of
                Some d \<Rightarrow> if d > 0 then d else 0
              | None \<Rightarrow> 0)))"

text \<open>\<^verbatim>\<open>normalizeBackoff\<close> and \<^verbatim>\<open>normalizeRetries\<close> (part_011 lines 482-499).\<close>

definition normalizeBackoff :: "int \<Rightarrow> int \<Rightarrow> int \<times> int" where
  "normalizeBackoff initial mx =
     ((if initial \<le> 0 then 200 * millisecond else initial),
      (if mx \<le> 0 then 2 * second else mx))"

definition normalizeRetries :: "int \<Rightarrow> int" where
  "normalizeRetries r = (if r < 0 then 0 else r)"

text \<open>
  The duration of the timer in \<^verbatim>\<open>jitterSleep\<close> (part_011 lines 501-514) for the draw
  \<open>r\<close>: \<^verbatim>\<open>float64(backoff) * (0.5 + 0.5 * (r / 1000.0))\<close>, converted to an integer
  (towards zero) and capped by \<^verbatim>\<open>maxBack\<close>. The product is taken exactly here; the
  rounding of the \<^verbatim>\<open>float64\<close> operations is not modelled, so for a draw other than 0
  the value can be a nanosecond above the one the code computes (200ms at the draw 1:
  100100000 here, 100099999 in the code). For the draw 0 and a backoff below \<open>2 ^ 53\<close>
  the two agree; the theorems below use no other draw. \<^verbatim>\<open>nextBackoff\<close> is lines
  516-523.
\<close>

definition jitter :: "int \<Rightarrow> int \<Rightarrow> int \<Rightarrow> int" where
  "jitter backoff maxBack r =
     (let j = (backoff * (1000 + r)) sdiv 2000
      in if j > maxBack then maxBack else j)"

definition nextBackoff :: "int \<Rightarrow> int \<Rightarrow> int" where
  "nextBackoff backoff maxBack =
     (let b = wrap64 (backoff * 2) in if b > maxBack then maxBack else b)"

text \<open>
  The variables of the retry loop of \<^verbatim>\<open>doJSON\<close> and \<^verbatim>\<open>doRequest\<close>: \<^verbatim>\<open>attempt\<close>,
  \<^verbatim>\<open>backoff\<close> and \<^verbatim>\<open>lastErr\<close>; with them the number of iterations completed, which
  indexes the environment, and the trace so far.
\<close>

record loop_state =
  attempt :: int
  calls :: nat
  backoff :: int
  last_error :: "go_error option"
  trace :: "event list"

text \<open>
  \<^verbatim>\<open>makeBody\<close> (part_000 lines 18-27): the input is nil (\<open>None\<close>), or
  \<^verbatim>\<open>json.Marshal\<close> fails on it, or gives the bytes of the body. \<open>build_request\<close> is
  lines 38-50: the new request with its three groups of headers. \<open>before_send\<close> is
  lines 51-60 and \<open>after_receive\<close> lines 66-73: the events of the logger, the hooks and
  the transport call around one send.
\<close>

definition makeBody :: "(go_error + string) option \<Rightarrow> go_error + string option" where
  "makeBody inp =
     (case inp of
        None \<Rightarrow> Inr None
      | Some (Inl e) \<Rightarrow> Inl (MarshalRequest e)
      | Some (Inr b) \<Rightarrow> Inr (Some b))"

definition build_request :: "Client \<Rightarrow> string \<Rightarrow> string \<Rightarrow> header \<Rightarrow> string option \<Rightarrow> request" where
  "build_request c m u hdr rc =
     (let h0 = header_Set [] ''Content-Type'' ''application/json'';
          h1 = (if UserAgent c \<noteq> [] then header_Set h0 ''User-Agent'' (UserAgent c) else h0);
          h2 = mergeHeaders h1 hdr
      in \<lparr>req_method = m, req_url = u, req_header = h2, req_body = rc\<rparr>)"

definition before_send :: "Client \<Rightarrow> request \<Rightarrow> int \<Rightarrow> event list" where
  "before_send c req a =
     (if Logger c then [LoggerRequest (req_method req) (req_url req) (redactHeaders (req_header req)) a]
      else []) @
     map (\<lambda>i. BeforeHook i req) [0..<BeforeHooks c] @ [HTTPDo req]"

definition after_receive ::
  "Client \<Rightarrow> request \<Rightarrow> int \<Rightarrow> go_error + response \<Rightarrow> string \<Rightarrow> event list" where
  "after_receive c req a res body =
     (if Logger c then [LoggerResponse (req_method req) (req_url req) (statusOf res) a] else []) @
     map (\<lambda>i. AfterHook i (case res of Inl e \<Rightarrow> None | Inr r \<Rightarrow> Some r) body
                  (case res of Inl e \<Rightarrow> Some e | Inr r \<Rightarrow> None)) [0..<AfterHooks c]"

text \<open>
  \<open>raise_backoff\<close> is lines 91-93: a parsed Retry-After larger than \<^verbatim>\<open>backoff\<close>
  replaces it. \<open>sleep_and_advance\<close> is lines 104-108: while attempts remain, sleep and
  double the backoff. \<open>doJSON_tail\<close> is lines 99-108: the type test of \<^verbatim>\<open>lastErr\<close>
  against \<^verbatim>\<open>*APIError\<close>, then the sleep.
\<close>

definition raise_backoff :: "env \<Rightarrow> nat \<Rightarrow> response \<Rightarrow> int \<Rightarrow> int" where
  "raise_backoff E n r b =
     (let ra = parseRetryAfter E n (resp_retry_after r)
      in if ra > 0 \<and> ra > b then ra else b)"

definition sleep_and_advance :: "env \<Rightarrow> int \<Rightarrow> int \<Rightarrow> loop_state \<Rightarrow> loop_state" where
  "sleep_and_advance E retries maxBack st =
     (if attempt st < retries then
        st\<lparr>trace := trace st @
               [JitterSleep (jitter (backoff st) maxBack (draw E (calls st)))
                  (ctxDoneInSleep E (calls st))],
            backoff := nextBackoff (backoff st) maxBack,
            calls := Suc (calls st)\<rparr>
      else st\<lparr>calls := Suc (calls st)\<rparr>)"

definition doJSON_tail ::
  "env \<Rightarrow> int \<Rightarrow> int \<Rightarrow> loop_state \<Rightarrow> (go_error option \<times> event list) + loop_state" where
  "doJSON_tail E retries maxBack st =
     (case last_error st of
        Some (Api e) \<Rightarrow>
          if StatusCode e \<noteq> 429 \<and> StatusCode e sdiv 100 \<noteq> 5 then Inl (last_error st, trace st)
          else Inr (sleep_and_advance E retries maxBack st)
      | _ \<Rightarrow> Inr (sleep_and_advance E retries maxBack st))"

text \<open>
  One run of the loop body of \<^verbatim>\<open>doJSON\<close> (part_000 lines 34-109): \<open>Inl\<close> when the
  function returns from inside the body, with the returned error and the trace;
  \<open>Inr\<close> with the variables at the end of the body otherwise. \<open>out\<close> is \<open>None\<close> for a
  nil decode target, else \<^verbatim>\<open>json.Unmarshal(body, out)\<close> as a function of the body,
  giving the error if there is one. The deferred \<^verbatim>\<open>res.Body.Close()\<close> is not modelled.
\<close>

definition doJSON_iter ::
  "env \<Rightarrow> Client \<Rightarrow> string \<Rightarrow> string \<Rightarrow> header \<Rightarrow> (go_error + string) option \<Rightarrow>
   (string \<Rightarrow> go_error option) option \<Rightarrow> int \<Rightarrow> int \<Rightarrow> loop_state \<Rightarrow>
   (go_error option \<times> event list) + loop_state" where
  "doJSON_iter E c m u hdr inp out retries maxBack st =
     (case makeBody inp of
        Inl e \<Rightarrow> Inl (Some e, trace st)
      | Inr rc \<Rightarrow>
          (case newRequestError E m u of
             Some e \<Rightarrow> Inl (Some e, trace st)
           | None \<Rightarrow>
               (let req = build_request c m u hdr rc;
                    res = transport E (calls st) req;
                    body = (case res of Inl e \<Rightarrow> [] | Inr r \<Rightarrow> resp_body r);
                    st1 = st\<lparr>trace := trace st @ before_send c req (attempt st) @
                                  after_receive c req (attempt st) res body\<rparr>
                in case res of
                     Inl e \<Rightarrow>
                       doJSON_tail E retries maxBack (st1\<lparr>last_error := Some (Wrapped m u e)\<rparr>)
                   | Inr r \<Rightarrow>
                       if resp_status r sdiv 100 = 2 then
                         (case out of
                            None \<Rightarrow> Inl (None, trace st1)
                          | Some unmarshal \<Rightarrow>
                              if length body > 0 then
                                (case unmarshal body of
                                   Some e \<Rightarrow>
                                     doJSON_tail E retries maxBack
                                       (st1\<lparr>last_error := Some (DecodeResponse e body)\<rparr>)
                                 | None \<Rightarrow> Inl (None, trace st1))
                              else Inl (None, trace st1))
                       else
                         (let apiErr = parseAPIError E (resp_status r) body
                          in if resp_status r = 429 \<or> resp_status r sdiv 100 = 5 then
                               doJSON_tail E retries maxBack
                                 (st1\<lparr>last_error := Some (Wrapped m u (Api apiErr)),
                                      backoff := raise_backoff E (calls st) r (backoff st)\<rparr>)
                             else Inl (Some (Api apiErr), trace st1)))))"

text \<open>The loop \<^verbatim>\<open>for attempt := 0; attempt <= retries; attempt++\<close> and the return
  after it (line 111); then \<^verbatim>\<open>doJSON\<close> itself (lines 15-33).\<close>

partial_function (option) doJSON_loop ::
  "env \<Rightarrow> Client \<Rightarrow> string \<Rightarrow> string \<Rightarrow> header \<Rightarrow> (go_error + string) option \<Rightarrow>
   (string \<Rightarrow> go_error option) option \<Rightarrow> int \<Rightarrow> int \<Rightarrow> loop_state \<Rightarrow>
   (go_error option \<times> event list) option" where
  "doJSON_loop E c m u hdr inp out retries maxBack st =
     (if attempt st \<le> retries then
        (case doJSON_iter E c m u hdr inp out retries maxBack st of
           Inl r \<Rightarrow> Some r
         | Inr st' \<Rightarrow>
             doJSON_loop E c m u hdr inp out retries maxBack
               (st'\<lparr>attempt := wrap64 (attempt st' + 1)\<rparr>))
      else Some (Some (FailedAfter (wrap64 (retries + 1)) (last_error st)), trace st))"

declare doJSON_loop.simps [code]

definition doJSON ::
  "env \<Rightarrow> Client \<Rightarrow> string \<Rightarrow> string \<Rightarrow> header \<Rightarrow> (go_error + string) option \<Rightarrow>
   (string \<Rightarrow> go_error option) option \<Rightarrow> (go_error option \<times> event list) option" where
  "doJSON E c m path hdr inp out =
     (let u = BaseURL c @ path;
          bm = normalizeBackoff (InitialBackoff c) (MaxBackoff c);
          retries = normalizeRetries (MaxRetries c)
      in doJSON_loop E c m u hdr inp out retries (snd bm)
           \<lparr>attempt = 0, calls = 0, backoff = fst bm, last_error = None, trace = []\<rparr>)"

text \<open>
  \<^verbatim>\<open>doRequest\<close> (part_000 lines 116-191): the same loop for streaming. A 2xx
  response is returned with its body unread; there is no response log, no after-hook,
  no decode and no type test of \<^verbatim>\<open>lastErr\<close>.
\<close>

definition doRequest_iter ::
  "env \<Rightarrow> Client \<Rightarrow> string \<Rightarrow> string \<Rightarrow> header \<Rightarrow> (go_error + string) option \<Rightarrow>
   int \<Rightarrow> int \<Rightarrow> loop_state \<Rightarrow> ((go_error + response) \<times> event list) + loop_state" where
  "doRequest_iter E c m u hdr inp retries maxBack st =
     (case makeBody inp of
        Inl e \<Rightarrow> Inl (Inl e, trace st)
      | Inr rc \<Rightarrow>
          (case newRequestError E m u of
             Some e \<Rightarrow> Inl (Inl e, trace st)
           | None \<Rightarrow>
               (let req = build_request c m u hdr rc;
                    res = transport E (calls st) req;
                    st1 = st\<lparr>trace := trace st @ before_send c req (attempt st)\<rparr>
                in case res of
                     Inl e \<Rightarrow>
                       Inr (sleep_and_advance E retries maxBack
                              (st1\<lparr>last_error := Some (Wrapped m u e)\<rparr>))
                   | Inr r \<Rightarrow>
                       if resp_status r sdiv 100 = 2 then Inl (Inr r, trace st1)
                       else
                         (let apiErr = parseAPIError E (resp_status r) (resp_body r)
                          in if resp_status r = 429 \<or> resp_status r sdiv 100 = 5 then
                               Inr (sleep_and_advance E retries maxBack
                                      (st1\<lparr>last_error := Some (Wrapped m u (Api apiErr)),
                                           backoff := raise_backoff E (calls st) r (backoff st)\<rparr>))
                             else Inl (Inl (Api apiErr), trace st1)))))"

partial_function (option) doRequest_loop ::
  "env \<Rightarrow> Client \<Rightarrow> string \<Rightarrow> string \<Rightarrow> header \<Rightarrow> (go_error + string) option \<Rightarrow>
   int \<Rightarrow> int \<Rightarrow> loop_state \<Rightarrow> ((go_error + response) \<times> event list) option" where
  "doRequest_loop E c m u hdr inp retries maxBack st =
     (if attempt st \<le> retries then
        (case doRequest_iter E c m u hdr inp retries maxBack st of
           Inl r \<Rightarrow> Some r
         | Inr st' \<Rightarrow>
             doRequest_loop E c m u hdr inp retries maxBack
               (st'\<lparr>attempt := wrap64 (attempt st' + 1)\<rparr>))
      else Some (Inl (FailedAfter (wrap64 (retries + 1)) (last_error st)), trace st))"

declare doRequest_loop.simps [code]

definition doRequest ::
  "env \<Rightarrow> Client \<Rightarrow> string \<Rightarrow> string \<Rightarrow> header \<Rightarrow> (go_error + string) option \<Rightarrow>
   ((go_error + response) \<times> event list) option" where
  "doRequest E c m path hdr inp =
     (let u = BaseURL c @ path;
          bm = normalizeBackoff (InitialBackoff c) (MaxBackoff c);
          retries = normalizeRetries (MaxRetries c)
      in doRequest_loop E c m u hdr inp retries (snd bm)
           \<lparr>attempt = 0, calls = 0, backoff = fst bm, last_error = None, trace = []\<rparr>)"

text \<open>Observations on a trace: the requests handed to the transport, the timer
  durations of the backoff sleeps, and the \<^verbatim>\<open>x-api-key\<close> values the logger and
  the transport were given.\<close>

fun sent_requests :: "event list \<Rightarrow> request list" where
  "sent_requests [] = []"
| "sent_requests (HTTPDo r # es) = r # sent_requests es"
| "sent_requests (e # es) = sent_requests es"

definition requests_sent :: "event list \<Rightarrow> nat" where
  "requests_sent tr = length (sent_requests tr)"

fun waits :: "event list \<Rightarrow> int list" where
  "waits [] = []"
| "waits (JitterSleep d i # es) = d # waits es"
| "waits (e # es) = waits es"

fun logged_headers :: "event list \<Rightarrow> header list" where
  "logged_headers [] = []"
| "logged_headers (LoggerRequest m u h a # es) = h # logged_headers es"
| "logged_headers (e # es) = logged_headers es"

definition logged_api_keys :: "event list \<Rightarrow> string list" where
  "logged_api_keys tr = map (\<lambda>h. header_Get h ''x-api-key'') (logged_headers tr)"

definition sent_api_keys :: "event list \<Rightarrow> string list" where
  "sent_api_keys tr = map (\<lambda>r. header_Get (req_header r) ''x-api-key'') (sent_requests tr)"

subsection \<open>The JSON decoder\<close>

text \<open>
  A model of what \<^verbatim>\<open>stream.go\<close> uses of \<^verbatim>\<open>encoding/json\<close>: a \<^verbatim>\<open>Decoder\<close> with
  \<^verbatim>\<open>Token\<close>, \<^verbatim>\<open>More\<close> and \<^verbatim>\<open>Decode\<close>, over the bytes of a body that the reader
  delivers in full and then ends with \<^verbatim>\<open>io.EOF\<close>.

  First the scanner of one value. Strings are unquoted as Go does (simple escapes,
  \<^verbatim>\<open>u\<close> escapes written as UTF-8, a lone surrogate as U+FFFD), except that bytes
  from 0x80 on are copied as they are; numbers keep their literal. The recursion of
  \<open>parse_value\<close> is bounded by a counter that \<open>readValue\<close> starts at twice the length
  of the input plus two; each recursive call is made after reading a byte or for a
  value that starts with one.
\<close>

definition isSpace :: "char \<Rightarrow> bool" where
  "isSpace c = (c = CHR '' '' \<or> c = CHR 0x09 \<or> c = CHR 0x0D \<or> c = CHR 0x0A)"

definition hexval :: "char \<Rightarrow> nat option" where
  "hexval c =
     (let n = (of_char c :: nat) in
      if 48 \<le> n \<and> n \<le> 57 then Some (n - 48)
      else if 97 \<le> n \<and> n \<le> 102 then Some (n - 87)
      else if 65 \<le> n \<and> n \<le> 70 then Some (n - 55)
      else None)"

definition getu4 :: "string \<Rightarrow> nat option" where
  "getu4 s =
     (case s of
        a # b # c # d # _ \<Rightarrow>
          (case (hexval a, hexval b, hexval c, hexval d) of
             (Some x, Some y, Some z, Some w) \<Rightarrow> Some (((x * 16 + y) * 16 + z) * 16 + w)
           | _ \<Rightarrow> None)
      | _ \<Rightarrow> None)"

definition encodeRune :: "nat \<Rightarrow> string" where
  "encodeRune r =
     (if r < 0x80 then [char_of r]
      else if r < 0x800 then [char_of (0xC0 + r div 64), char_of (0x80 + r mod 64)]
      else if r < 0x10000 then
        [char_of (0xE0 + r div 4096), char_of (0x80 + (r div 64) mod 64), char_of (0x80 + r mod 64)]
      else
        [char_of (0xF0 + r div 262144), char_of (0x80 + (r div 4096) mod 64),
         char_of (0x80 + (r div 64) mod 64), char_of (0x80 + r mod 64)])"

definition simple_escape :: "char \<Rightarrow> char option" where
  "simple_escape e =
     (if e = CHR 0x22 then Some (CHR 0x22)
      else if e = CHR 0x5C then Some (CHR 0x5C)
      else if e = CHR ''/'' then Some (CHR ''/'')
      else if e = CHR ''b'' then Some (CHR 0x08)
      else if e = CHR ''f'' then Some (CHR 0x0C)
      else if e = CHR ''n'' then Some (CHR 0x0A)
      else if e = CHR ''r'' then Some (CHR 0x0D)
      else if e = CHR ''t'' then Some (CHR 0x09)
      else None)"

text \<open>The rune of a \<^verbatim>\<open>u\<close> escape with code unit \<open>r\<close>, and the input after it: a high
  surrogate followed by the escape of a low one gives the rune of the pair and
  takes both; any other surrogate gives U+FFFD.\<close>

definition unquote_u :: "nat \<Rightarrow> string \<Rightarrow> nat \<times> string" where
  "unquote_u r rest =
     (if 0xD800 \<le> r \<and> r < 0xE000 then
        (case rest of
           b # u # hs \<Rightarrow>
             if b = CHR 0x5C \<and> u = CHR ''u'' then
               (case getu4 hs of
                  Some r2 \<Rightarrow>
                    if r < 0xDC00 \<and> 0xDC00 \<le> r2 \<and> r2 < 0xE000
                    then (0x10000 + (r - 0xD800) * 0x400 + (r2 - 0xDC00), drop 4 hs)
                    else (0xFFFD, rest)
                | None \<Rightarrow> (0xFFFD, rest))
             else (0xFFFD, rest)
         | _ \<Rightarrow> (0xFFFD, rest))
      else (r, rest))"

function scan_string :: "string \<Rightarrow> string \<Rightarrow> go_error + (string \<times> string)" where
  "scan_string acc [] = Inl IoUnexpectedEOF"
| "scan_string acc (c # cs) =
     (if c = CHR 0x22 then Inr (acc, cs)
      else if c = CHR 0x5C then
        (case cs of
           [] \<Rightarrow> Inl IoUnexpectedEOF
         | e # es \<Rightarrow>
             if e = CHR ''u'' then
               (if length es < 4 \<and> list_all (\<lambda>h. hexval h \<noteq> None) es then Inl IoUnexpectedEOF
                else
                  (case getu4 es of
                     None \<Rightarrow> Inl (SyntaxError ''invalid character in hexadecimal character escape'')
                   | Some r \<Rightarrow>
                       scan_string (acc @ encodeRune (fst (unquote_u r (drop 4 es))))
                         (snd (unquote_u r (drop 4 es)))))
             else
               (case simple_escape e of
                  None \<Rightarrow> Inl (SyntaxError ''invalid character in string escape code'')
                | Some b \<Rightarrow> scan_string (acc @ [b]) es))
      else if (of_char c :: nat) < 0x20 then Inl (SyntaxError ''invalid character in string literal'')
      else scan_string (acc @ [c]) cs)"
  by pat_completeness auto

termination scan_string
proof (relation "measure (\<lambda>(acc, s). length s)", goal_cases)
  case 1
  show ?case by simp
next
  case (2 acc c cs e es r)
  have "length (snd (unquote_u r rest)) \<le> length rest" for rest
    by (auto simp: unquote_u_def split: list.splits option.splits)
  from this [of "drop 4 es"] and 2 show ?case by simp
next
  case 3
  then show ?case by simp
next
  case 4
  then show ?case by simp
qed

definition scan_digits :: "string \<Rightarrow> string \<Rightarrow> go_error + (string \<times> string)" where
  "scan_digits acc s =
     (case s of
        [] \<Rightarrow> Inl IoUnexpectedEOF
      | d # _ \<Rightarrow>
          if isDigit d then Inr (acc @ takeWhile isDigit s, dropWhile isDigit s)
          else Inl (SyntaxError ''invalid character in numeric literal''))"

definition scan_exp :: "string \<Rightarrow> string \<Rightarrow> go_error + (string \<times> string)" where
  "scan_exp acc s =
     (case s of
        [] \<Rightarrow> Inr (acc, s)
      | e # s' \<Rightarrow>
          if e = CHR ''e'' \<or> e = CHR ''E'' then
            (case s' of
               [] \<Rightarrow> Inl IoUnexpectedEOF
             | g # s'' \<Rightarrow>
                 if g = CHR ''+'' \<or> g = CHR ''-'' then scan_digits (acc @ [e, g]) s''
                 else scan_digits (acc @ [e]) s')
          else Inr (acc, s))"

definition scan_frac :: "string \<Rightarrow> string \<Rightarrow> go_error + (string \<times> string)" where
  "scan_frac acc s =
     (case s of
        [] \<Rightarrow> Inr (acc, s)
      | p # s' \<Rightarrow>
          if p = CHR ''.'' then
            (case scan_digits (acc @ [p]) s' of
               Inl e \<Rightarrow> Inl e
             | Inr (acc', rest) \<Rightarrow> scan_exp acc' rest)
          else scan_exp acc s)"

definition scan_number :: "string \<Rightarrow> go_error + (string \<times> string)" where
  "scan_number s =
     (let sign = (case s of [] \<Rightarrow> [] | c # _ \<Rightarrow> if c = CHR ''-'' then [c] else []);
          s1 = drop (length sign) s
      in case s1 of
           [] \<Rightarrow> Inl IoUnexpectedEOF
         | d # s2 \<Rightarrow>
             if d = CHR ''0'' then scan_frac (sign @ [d]) s2
             else if isDigit d then
               scan_frac (sign @ takeWhile isDigit s1) (dropWhile isDigit s1)
             else Inl (SyntaxError ''invalid character in numeric literal''))"

definition scan_literal :: "string \<Rightarrow> json \<Rightarrow> string \<Rightarrow> go_error + (json \<times> string)" where
  "scan_literal lit v s =
     (if take (length lit) s = lit then Inr (v, drop (length lit) s)
      else if s = take (length s) lit then Inl IoUnexpectedEOF
      else Inl (SyntaxError ''invalid character in literal''))"

fun parse_value :: "nat \<Rightarrow> string \<Rightarrow> go_error + (json \<times> string)"
and parse_elems :: "nat \<Rightarrow> json list \<Rightarrow> string \<Rightarrow> go_error + (json \<times> string)"
and parse_members :: "nat \<Rightarrow> (string \<times> json) list \<Rightarrow> string \<Rightarrow> go_error + (json \<times> string)"
where
  "parse_value 0 s = Inl (Foreign ''parser counter exhausted'')"
| "parse_value (Suc n) s =
     (case dropWhile isSpace s of
        [] \<Rightarrow> Inl IoUnexpectedEOF
      | c # cs \<Rightarrow>
          if c = CHR ''{'' then
            (case dropWhile isSpace cs of
               [] \<Rightarrow> Inl IoUnexpectedEOF
             | k # ks \<Rightarrow>
                 if k = CHR ''}'' then Inr (JObject [], ks)
                 else parse_members n [] (k # ks))
          else if c = CHR ''['' then
            (case dropWhile isSpace cs of
               [] \<Rightarrow> Inl IoUnexpectedEOF
             | k # ks \<Rightarrow>
                 if k = CHR '']'' then Inr (JArray [], ks)
                 else parse_elems n [] (k # ks))
          else if c = CHR 0x22 then
            (case scan_string [] cs of
               Inl e \<Rightarrow> Inl e
             | Inr (str, rest) \<Rightarrow> Inr (JString str, rest))
          else if c = CHR ''-'' \<or> isDigit c then
            (case scan_number (c # cs) of
               Inl e \<Rightarrow> Inl e
             | Inr (num, rest) \<Rightarrow> Inr (JNumber num, rest))
          else if c = CHR ''t'' then scan_literal ''true'' (JBool True) (c # cs)
          else if c = CHR ''f'' then scan_literal ''false'' (JBool False) (c # cs)
          else if c = CHR ''n'' then scan_literal ''null'' JNull (c # cs)
          else Inl (SyntaxError ''invalid character looking for beginning of value''))"
| "parse_elems 0 acc s = Inl (Foreign ''parser counter exhausted'')"
| "parse_elems (Suc n) acc s =
     (case parse_value n s of
        Inl e \<Rightarrow> Inl e
      | Inr (v, rest) \<Rightarrow>
          (case dropWhile isSpace rest of
             [] \<Rightarrow> Inl IoUnexpectedEOF
           | c # cs \<Rightarrow>
               if c = CHR '','' then parse_elems n (acc @ [v]) cs
               else if c = CHR '']'' then Inr (JArray (acc @ [v]), cs)
               else Inl (SyntaxError ''invalid character after array element'')))"
| "parse_members 0 acc s = Inl (Foreign ''parser counter exhausted'')"
| "parse_members (Suc n) acc s =
     (case dropWhile isSpace s of
        [] \<Rightarrow> Inl IoUnexpectedEOF
      | q # qs \<Rightarrow>
          if q \<noteq> CHR 0x22 then
            Inl (SyntaxError ''invalid character looking for beginning of object key string'')
          else
            (case scan_string [] qs of
               Inl e \<Rightarrow> Inl e
             | Inr (key, rest) \<Rightarrow>
                 (case dropWhile isSpace rest of
                    [] \<Rightarrow> Inl IoUnexpectedEOF
                  | c # cs \<Rightarrow>
                      if c \<noteq> CHR '':'' then Inl (SyntaxError ''invalid character after object key'')
                      else
                        (case parse_value n cs of
                           Inl e \<Rightarrow> Inl e
                         | Inr (v, rest') \<Rightarrow>
                             (case dropWhile isSpace rest' of
                                [] \<Rightarrow> Inl IoUnexpectedEOF
                              | d # ds \<Rightarrow>
                                  if d = CHR '','' then parse_members n (acc @ [(key, v)]) ds
                                  else if d = CHR ''}'' then Inr (JObject (acc @ [(key, v)]), ds)
                                  else Inl (SyntaxError
                                    ''invalid character after object key:value pair''))))))"

definition readValue :: "string \<Rightarrow> go_error + (json \<times> string)" where
  "readValue s =
     (if dropWhile isSpace s = [] then Inl IoEOF
      else parse_value (2 * length s + 2) s)"


text \<open>
  The decoder: the input not yet read, the sticky error, and the token state with its
  stack, as in \<^verbatim>\<open>encoding/json/stream.go\<close>. \<open>tokenPrepareForDecode\<close>,
  \<open>tokenValueAllowed\<close>, \<open>tokenValueEnd\<close> are the functions of these names;
  \<open>Decoder_Decode\<close> is \<^verbatim>\<open>Decode\<close> up to the unmarshalling into the destination, which
  the callers below apply to the value; \<open>Decoder_More\<close> is \<^verbatim>\<open>More\<close>; \<open>Token_loop\<close> is
  the loop of \<^verbatim>\<open>Token\<close> over the input, one byte at a time.

  \<^bold>\<open>Assumption on the library.\<close> The decoder modelled is the original
  \<^verbatim>\<open>encoding/json\<close>, the one of the Go releases the repository names (Go 1.18 and
  later, tested on 1.20 to 1.23). Its \<^verbatim>\<open>More\<close> is
  \<^verbatim>\<open>c, err := dec.peek(); return err == nil && c != ']' && c != '}'\<close>: it answers false
  at a closing delimiter and also when the input has ended. A toolchain whose
  \<^verbatim>\<open>encoding/json\<close> is built on the \<^verbatim>\<open>json/v2\<close> implementation answers differently
  when the input ends inside an open array or object (there \<^verbatim>\<open>More\<close> is true and the
  following \<^verbatim>\<open>Decode\<close> reports the error); that implementation is not modelled, and
  every statement below that reaches the end of a truncated input names this
  assumption.
\<close>

datatype tokenState =
    tokenTopValue
  | tokenArrayStart
  | tokenArrayValue
  | tokenArrayComma
  | tokenObjectStart
  | tokenObjectKey
  | tokenObjectColon
  | tokenObjectValue
  | tokenObjectComma

record Decoder =
  buf :: string
  err :: "go_error option"
  tokenState :: tokenState
  tokenStack :: "tokenState list"

definition NewDecoder :: "string \<Rightarrow> Decoder" where
  "NewDecoder body = \<lparr>buf = body, err = None, tokenState = tokenTopValue, tokenStack = []\<rparr>"

definition tokenPrepareForDecode :: "Decoder \<Rightarrow> go_error + Decoder" where
  "tokenPrepareForDecode d =
     (if tokenState d = tokenArrayComma then
        (case dropWhile isSpace (buf d) of
           [] \<Rightarrow> Inl IoEOF
         | c # cs \<Rightarrow>
             if c \<noteq> CHR '','' then Inl (SyntaxError ''expected comma after array element'')
             else Inr (d\<lparr>buf := cs, tokenState := tokenArrayValue\<rparr>))
      else if tokenState d = tokenObjectColon then
        (case dropWhile isSpace (buf d) of
           [] \<Rightarrow> Inl IoEOF
         | c # cs \<Rightarrow>
             if c \<noteq> CHR '':'' then Inl (SyntaxError ''expected colon after object key'')
             else Inr (d\<lparr>buf := cs, tokenState := tokenObjectValue\<rparr>))
      else Inr d)"

definition tokenValueAllowed :: "Decoder \<Rightarrow> bool" where
  "tokenValueAllowed d =
     (tokenState d = tokenTopValue \<or> tokenState d = tokenArrayStart \<or>
      tokenState d = tokenArrayValue \<or> tokenState d = tokenObjectValue)"

definition tokenValueEnd :: "Decoder \<Rightarrow> Decoder" where
  "tokenValueEnd d =
     (if tokenState d = tokenArrayStart \<or> tokenState d = tokenArrayValue
      then d\<lparr>tokenState := tokenArrayComma\<rparr>
      else if tokenState d = tokenObjectValue then d\<lparr>tokenState := tokenObjectComma\<rparr>
      else d)"

definition Decoder_Decode :: "Decoder \<Rightarrow> (go_error + json) \<times> Decoder" where
  "Decoder_Decode d =
     (case err d of
        Some e \<Rightarrow> (Inl e, d)
      | None \<Rightarrow>
          (case tokenPrepareForDecode d of
             Inl e \<Rightarrow> (Inl e, d)
           | Inr d1 \<Rightarrow>
               if \<not> tokenValueAllowed d1 then (Inl (SyntaxError ''not at beginning of value''), d1)
               else
                 (case readValue (buf d1) of
                    Inl e \<Rightarrow> (Inl e, d1\<lparr>err := Some e\<rparr>)
                  | Inr (v, rest) \<Rightarrow> (Inr v, tokenValueEnd (d1\<lparr>buf := rest\<rparr>)))))"

definition Decoder_More :: "Decoder \<Rightarrow> bool" where
  "Decoder_More d =
     (case dropWhile isSpace (buf d) of
        [] \<Rightarrow> False
      | c # _ \<Rightarrow> c \<noteq> CHR '']'' \<and> c \<noteq> CHR ''}'')"

definition tokenError :: "Decoder \<Rightarrow> char \<Rightarrow> string \<Rightarrow> (go_error + token) \<times> Decoder" where
  "tokenError d c rest = (Inl (SyntaxError ''invalid character in token stream''), d\<lparr>buf := c # rest\<rparr>)"

definition popState :: "Decoder \<Rightarrow> char \<Rightarrow> string \<Rightarrow> (go_error + token) \<times> Decoder" where
  "popState d c rest =
     (case tokenStack d of
        [] \<Rightarrow> (Inl (Foreign ''panic: index out of range''), d)
      | t # ts \<Rightarrow>
          (Inr (Delim c), tokenValueEnd (d\<lparr>buf := rest, tokenState := t, tokenStack := ts\<rparr>)))"

fun Token_loop :: "Decoder \<Rightarrow> string \<Rightarrow> (go_error + token) \<times> Decoder" where
  "Token_loop d [] = (Inl IoEOF, d\<lparr>buf := []\<rparr>)"
| "Token_loop d (c # cs) =
     (if isSpace c then Token_loop d cs
      else if c = CHR ''['' then
        (if \<not> tokenValueAllowed d then tokenError d c cs
         else (Inr (Delim c),
               d\<lparr>buf := cs, tokenState := tokenArrayStart, tokenStack := tokenState d # tokenStack d\<rparr>))
      else if c = CHR '']'' then
        (if tokenState d \<noteq> tokenArrayStart \<and> tokenState d \<noteq> tokenArrayComma
         then tokenError d c cs
         else popState d c cs)
      else if c = CHR ''{'' then
        (if \<not> tokenValueAllowed d then tokenError d c cs
         else (Inr (Delim c),
               d\<lparr>buf := cs, tokenState := tokenObjectStart, tokenStack := tokenState d # tokenStack d\<rparr>))
      else if c = CHR ''}'' then
        (if tokenState d \<noteq> tokenObjectStart \<and> tokenState d \<noteq> tokenObjectComma
         then tokenError d c cs
         else popState d c cs)
      else if c = CHR '':'' then
        (if tokenState d \<noteq> tokenObjectColon then tokenError d c cs
         else Token_loop (d\<lparr>tokenState := tokenObjectValue\<rparr>) cs)
      else if c = CHR '','' then
        (if tokenState d = tokenArrayComma then Token_loop (d\<lparr>tokenState := tokenArrayValue\<rparr>) cs
         else if tokenState d = tokenObjectComma then Token_loop (d\<lparr>tokenState := tokenObjectKey\<rparr>) cs
         else tokenError d c cs)
      else if c = CHR 0x22 \<and> (tokenState d = tokenObjectStart \<or> tokenState d = tokenObjectKey) then
        (case Decoder_Decode (d\<lparr>buf := c # cs, tokenState := tokenTopValue\<rparr>) of
           (Inl e, d') \<Rightarrow> (Inl e, d'\<lparr>tokenState := tokenState d\<rparr>)
         | (Inr v, d') \<Rightarrow> (Inr (Value v), d'\<lparr>tokenState := tokenObjectColon\<rparr>))
      else if \<not> tokenValueAllowed d then tokenError d c cs
      else
        (case Decoder_Decode (d\<lparr>buf := c # cs\<rparr>) of
           (Inl e, d') \<Rightarrow> (Inl e, d')
         | (Inr v, d') \<Rightarrow> (Inr (Value v), d')))"

definition Decoder_Token :: "Decoder \<Rightarrow> (go_error + token) \<times> Decoder" where
  "Decoder_Token d = Token_loop d (buf d)"

text \<open>
  \<^verbatim>\<open>RowScanner\<close> (stream.go lines 13-19). \<open>closer\<close> tells whether the field is
  non-nil, \<open>body_open\<close> whether the response body has not been closed, \<open>finished\<close> is
  the field \<^verbatim>\<open>done\<close>. \<open>RowScanner_Close\<close> is lines 73-80 and \<open>RowScanner_Err\<close> line 70.
\<close>

record RowScanner =
  dec :: Decoder
  closer :: bool
  body_open :: bool
  inRows :: bool
  finished :: bool
  lastErr :: "go_error option"

definition RowScanner_Close :: "RowScanner \<Rightarrow> RowScanner" where
  "RowScanner_Close s = (if closer s then s\<lparr>closer := False, body_open := False\<rparr> else s)"

definition RowScanner_Err :: "RowScanner \<Rightarrow> go_error option" where
  "RowScanner_Err s = lastErr s"

text \<open>
  \<^verbatim>\<open>Next\<close> (lines 23-67). \<open>seek_rows\<close> is the loop of lines 29-51: \<open>Some e\<close> with the
  error \<^verbatim>\<open>Next\<close> records, or \<open>None\<close> when the array was entered. \<open>decode_element\<close> is
  lines 53-66, with the destination \<open>dst\<close> as the function that unmarshals a value
  into it. \<open>RowScanner_Next dst s\<close> gives the boolean result, the value decoded (if
  any) and the scanner after the call.
\<close>

partial_function (option) seek_rows :: "Decoder \<Rightarrow> (go_error option \<times> Decoder) option" where
  "seek_rows d =
     (case Decoder_Token d of
        (Inl e, d1) \<Rightarrow> Some (Some e, d1)
      | (Inr tok, d1) \<Rightarrow>
          if tok = Value (JString ''rows'') then
            (case Decoder_Token d1 of
               (Inl e, d2) \<Rightarrow> Some (Some e, d2)
             | (Inr tok2, d2) \<Rightarrow>
                 if tok2 \<noteq> Delim (CHR ''['') then Some (Some (UnexpectedTokenAfterRows tok2), d2)
                 else Some (None, d2))
          else seek_rows d1)"

declare seek_rows.simps [code]

definition decode_element ::
  "(json \<Rightarrow> go_error + 'a) \<Rightarrow> RowScanner \<Rightarrow> bool \<times> 'a option \<times> RowScanner" where
  "decode_element dst s =
     (if Decoder_More (dec s) then
        (case Decoder_Decode (dec s) of
           (Inl e, d') \<Rightarrow> (False, None, RowScanner_Close (s\<lparr>dec := d', lastErr := Some e\<rparr>))
         | (Inr v, d') \<Rightarrow>
             (case dst v of
                Inl e \<Rightarrow> (False, None, RowScanner_Close (s\<lparr>dec := d', lastErr := Some e\<rparr>))
              | Inr x \<Rightarrow> (True, Some x, s\<lparr>dec := d'\<rparr>)))
      else
        (False, None,
         RowScanner_Close (s\<lparr>dec := snd (Decoder_Token (dec s)), finished := True\<rparr>)))"

definition RowScanner_Next ::
  "(json \<Rightarrow> go_error + 'a) \<Rightarrow> RowScanner \<Rightarrow> (bool \<times> 'a option \<times> RowScanner) option" where
  "RowScanner_Next dst s =
     (if finished s then Some (False, None, s)
      else if \<not> inRows s then
        (case seek_rows (dec s) of
           None \<Rightarrow> None
         | Some (Some e, d) \<Rightarrow>
             Some (False, None, RowScanner_Close (s\<lparr>dec := d, lastErr := Some e\<rparr>))
         | Some (None, d) \<Rightarrow> Some (decode_element dst (s\<lparr>dec := d, inRows := True\<rparr>)))
      else Some (decode_element dst s))"

text \<open>\<open>open_stream\<close> is lines 92-102 of \<^verbatim>\<open>ExecSQLStream\<close>: the decoder on the body
  and the check of the opening brace.\<close>

definition open_stream :: "string \<Rightarrow> go_error + RowScanner" where
  "open_stream body =
     (case Decoder_Token (NewDecoder body) of
        (Inl e, d) \<Rightarrow> Inl e
      | (Inr tok, d) \<Rightarrow>
          if tok \<noteq> Delim (CHR ''{'') then Inl (UnexpectedResponseStart tok)
          else Inr \<lparr>dec = d, closer = True, body_open = True, inRows = False, finished = False,
                    lastErr = None\<rparr>)"

text \<open>\<^verbatim>\<open>ExecSQLStream\<close> (lines 84-91). \<open>pid\<close> is \<^verbatim>\<open>url.PathEscape(projectID)\<close> and \<open>opts\<close>
  the headers \<^verbatim>\<open>buildHeaders(nil, opts...)\<close> collects.\<close>

definition ExecSQLStream ::
  "env \<Rightarrow> Client \<Rightarrow> string \<Rightarrow> header \<Rightarrow> (go_error + string) option \<Rightarrow>
   ((go_error + RowScanner) \<times> event list) option" where
  "ExecSQLStream E c pid opts req =
     (let path = ''/warlotSql/projects/'' @ pid @ ''/sql'';
          h = mergeHeaders (authHeaders c) opts
      in case doRequest E c ''POST'' path h req of
           None \<Rightarrow> None
         | Some (Inl e, tr) \<Rightarrow> Some (Inl e, tr)
         | Some (Inr res, tr) \<Rightarrow> Some (open_stream (resp_body res), tr))"

text \<open>\<open>n\<close> calls of \<^verbatim>\<open>Next\<close> in a row into a destination of type \<^verbatim>\<open>any\<close>: what each
  returned, and the scanner after the last. The destination takes every value as it
  is (\<open>Inr\<close>), a number as its literal: Go stores a number as a \<^verbatim>\<open>float64\<close> and
  fails on a literal outside its range (\<^verbatim>\<open>1e400\<close>), which this destination does not
  model.\<close>

fun next_n :: "nat \<Rightarrow> RowScanner \<Rightarrow> ((bool \<times> json option) list \<times> RowScanner) option" where
  "next_n 0 s = Some ([], s)"
| "next_n (Suc n) s =
     (case RowScanner_Next Inr s of
        None \<Rightarrow> None
      | Some (b, x, s') \<Rightarrow>
          (case next_n n s' of None \<Rightarrow> None | Some (rs, s'') \<Rightarrow> Some ((b, x) # rs, s'')))"

subsection \<open>Pager (\<^verbatim>\<open>pager.go\<close>)\<close>

text \<open>A row is kept as its JSON text. \<^verbatim>\<open>Project.Browse\<close> reaches the network
  through \<^verbatim>\<open>BrowseRows\<close>; here it is a parameter \<open>browse\<close> acting on a world
  \<open>'w\<close>: given the table, the limit and the offset it answers with an error or the
  rows of the response, and a new world.\<close>

type_synonym row = string

record Pager =
  Project :: string
  Table :: string
  Limit :: int
  Offset :: int
  Done :: bool

type_synonym 'w browse_fn =
  "'w \<Rightarrow> string \<Rightarrow> string \<Rightarrow> int \<Rightarrow> int \<Rightarrow> (go_error + row list) \<times> 'w"

text \<open>\<^verbatim>\<open>Pager.Next\<close>: the result is the pair Go returns (rows, error), with
  \<open>None\<close> for \<^verbatim>\<open>nil\<close>, the pager after the call, and the world after the call.\<close>

definition Pager_Next ::
  "'w browse_fn \<Rightarrow> Pager \<Rightarrow> 'w \<Rightarrow> (row list option \<times> go_error option) \<times> Pager \<times> 'w" where
  "Pager_Next browse p w =
     (if Done p then ((None, None), p, w)
      else
        (case browse w (Project p) (Table p) (Limit p) (Offset p) of
           (Inl e, w') \<Rightarrow> ((None, Some e), p, w')
         | (Inr rows, w') \<Rightarrow>
             if length rows = 0 then ((None, None), p\<lparr>Done := True\<rparr>, w')
             else ((Some rows, None),
                   p\<lparr>Offset := wrap64 (Offset p + int (length rows))\<rparr>, w')))"

text \<open>A scripted fetch for tests: the world is the list of answers still to give and
  the log of (limit, offset) pairs received so far; with no answer left it fails.\<close>

type_synonym script_world = "(go_error + row list) list \<times> (int \<times> int) list"

definition scripted_browse :: "script_world browse_fn" where
  "scripted_browse w proj tbl limit offset =
     (case fst w of
        [] \<Rightarrow> (Inl (Foreign ''no scripted answer''), ([], snd w @ [(limit, offset)]))
      | a # as \<Rightarrow> (a, (as, snd w @ [(limit, offset)])))"

definition pager0 :: Pager where
  "pager0 = \<lparr>Project = ''P'', Table = ''t'', Limit = 2, Offset = 0, Done = False\<rparr>"

definition two_two_zero :: script_world where
  "two_two_zero =
     ([Inr [''{\"id\":1}'', ''{\"id\":2}''], Inr [''{\"id\":3}'', ''{\"id\":4}''], Inr []], [])"

text \<open>The pager and world after the first, second, third and fourth call of the test.\<close>

primrec pager_run :: "nat \<Rightarrow> (row list option \<times> go_error option) \<times> Pager \<times> script_world" where
  "pager_run 0 = ((None, None), pager0, two_two_zero)"
| "pager_run (Suc n) = (case pager_run n of (r, p, w) \<Rightarrow> Pager_Next scripted_browse p w)"

subsection \<open>Observations and test scenarios\<close>

text \<open>Whether an iteration of a retry loop goes on to the next attempt (\<open>Inr\<close>)
  instead of returning from the call (\<open>Inl\<close>).\<close>

definition goes_on :: "'a + loop_state \<Rightarrow> bool" where
  "goes_on x = (case x of Inl r \<Rightarrow> False | Inr st \<Rightarrow> True)"

text \<open>The result of a call with the number of requests it handed to the transport,
  and with the timer durations of its backoff sleeps.\<close>

definition result_and_requests :: "('a \<times> event list) option \<Rightarrow> ('a \<times> nat) option" where
  "result_and_requests x = map_option (\<lambda>(r, tr). (r, requests_sent tr)) x"

definition result_and_waits :: "('a \<times> event list) option \<Rightarrow> ('a \<times> int list) option" where
  "result_and_waits x = map_option (\<lambda>(r, tr). (r, waits tr)) x"

text \<open>
  \<^verbatim>\<open>json.Unmarshal(b, &msg)\<close> for the struct of \<^verbatim>\<open>parseAPIError\<close>, on the JSON model
  above: \<open>b\<close> must be one JSON value with nothing but white space after it; \<^verbatim>\<open>null\<close>
  leaves the struct as it is; any other value that is not an object is an error. Of
  an object, the members named \<^verbatim>\<open>message\<close>, \<^verbatim>\<open>error\<close>, \<^verbatim>\<open>code\<close> and \<^verbatim>\<open>details\<close>
  (compared without regard to letter case, as Go does) are stored in order, a later
  one over an earlier one: a string into a string field, \<^verbatim>\<open>null\<close> into none, anything
  else into a string field is an error; \<^verbatim>\<open>details\<close> takes any value. \<open>None\<close> stands
  for a call that returns an error.
\<close>

fun fill_msg ::
  "(string \<times> json) list \<Rightarrow> string \<times> string \<times> string \<times> json option \<Rightarrow>
   (string \<times> string \<times> string \<times> json option) option" where
  "fill_msg [] acc = Some acc"
| "fill_msg ((k, v) # ms) (me, er, co, de) =
     (if EqualFold k ''message'' then
        (case v of JString x \<Rightarrow> fill_msg ms (x, er, co, de)
                 | JNull \<Rightarrow> fill_msg ms (me, er, co, de)
                 | _ \<Rightarrow> None)
      else if EqualFold k ''error'' then
        (case v of JString x \<Rightarrow> fill_msg ms (me, x, co, de)
                 | JNull \<Rightarrow> fill_msg ms (me, er, co, de)
                 | _ \<Rightarrow> None)
      else if EqualFold k ''code'' then
        (case v of JString x \<Rightarrow> fill_msg ms (me, er, x, de)
                 | JNull \<Rightarrow> fill_msg ms (me, er, co, de)
                 | _ \<Rightarrow> None)
      else if EqualFold k ''details'' then
        fill_msg ms (me, er, co, (case v of JNull \<Rightarrow> None | _ \<Rightarrow> Some v))
      else fill_msg ms (me, er, co, de))"

definition unmarshal_msg :: "string \<Rightarrow> (string \<times> string \<times> string \<times> json option) option" where
  "unmarshal_msg b =
     (case readValue b of
        Inl e \<Rightarrow> None
      | Inr (v, rest) \<Rightarrow>
          if dropWhile isSpace rest \<noteq> [] then None
          else (case v of
                  JObject ms \<Rightarrow> fill_msg ms ([], [], [], None)
                | JNull \<Rightarrow> Some ([], [], [], None)
                | _ \<Rightarrow> None))"

text \<open>A client as \<^verbatim>\<open>New\<close> would build it for a test server, with a logger and one
  hook of each kind; an environment whose transport answers the n-th call with
  \<open>f n\<close>, where an error body is unmarshalled as above, no Retry-After is an HTTP
  date, the clock draws 0 for every jitter and the context is never done.\<close>

definition test_client :: Client where
  "test_client = \<lparr>BaseURL = ''http://127.0.0.1:8080'', APIKey = ''secret-key-123456'',
     HolderID = ''holder'', ProjectName = [], UserAgent = ''warlot-go/0.2'', MaxRetries = 3,
     InitialBackoff = 200 * millisecond, MaxBackoff = 2 * second, Logger = True,
     BeforeHooks = 1, AfterHooks = 1\<rparr>"

definition answering :: "(nat \<Rightarrow> go_error + response) \<Rightarrow> env" where
  "answering f = \<lparr>transport = (\<lambda>n req. f n),
     newRequestError = (\<lambda>m u. None),
     unmarshalErrorBody = unmarshal_msg,
     untilHTTPDate = (\<lambda>n v. None),
     draw = (\<lambda>n. 0),
     ctxDoneInSleep = (\<lambda>n. False)\<rparr>"

definition reply :: "int \<Rightarrow> string \<Rightarrow> string \<Rightarrow> go_error + response" where
  "reply code ra b = Inr \<lparr>resp_status = code, resp_retry_after = ra, resp_body = b\<rparr>"


text \<open>A success body whose \<^verbatim>\<open>row_count\<close> is not a number, and the decode target
  that rejects it, as in the documentation's \<^verbatim>\<open>Test_DecodeError_IsReturned\<close>.\<close>

definition bad_body :: string where
  "bad_body = ''{\"ok\":true,\"row_count\":\"not-an-int\"}''"

definition unmarshal_type_error :: go_error where
  "unmarshal_type_error = Foreign ''json: cannot unmarshal string into Go value of type int''"

definition rejecting :: "string \<Rightarrow> go_error option" where
  "rejecting b = Some unmarshal_type_error"

text \<open>Error bodies, and servers: one that answers 503 to every request, one that
  answers 400 first and 503 afterwards, one that answers 429 first and 200 with an
  empty body afterwards, and one whose first answer is 200 with \<open>bad_body\<close> and whose
  later answers are 400.\<close>

definition busy_body :: string where
  "busy_body = ''{\"message\":\"busy\"}''"

definition bad_request_body :: string where
  "bad_request_body = ''{\"error\":\"bad request\",\"code\":\"E400\"}''"

definition busy_server :: env where
  "busy_server = answering (\<lambda>n. reply 503 [] busy_body)"

definition bad_request_then_busy :: env where
  "bad_request_then_busy =
     answering (\<lambda>n. if n = 0 then reply 400 [] bad_request_body else reply 503 [] busy_body)"

definition rate_limited_once :: env where
  "rate_limited_once =
     answering (\<lambda>n. if n = 0 then reply 429 [] ''{\"message\":\"slow down\"}'' else reply 200 [] [])"

definition bad_200_then_400 :: env where
  "bad_200_then_400 =
     answering (\<lambda>n. if n = 0 then reply 200 [] bad_body else reply 400 [] bad_request_body)"

text \<open>The three streaming bodies of the claims.\<close>

definition body_ok :: string where
  "body_ok = ''{\"ok\":true,\"rows\":[{\"id\":1},{\"id\":2},{\"id\":3}]}''"

definition body_truncated :: string where
  "body_truncated = ''{\"ok\":true,\"rows\":[{\"id\":1},{\"id\":2}''"


definition row_id :: "string \<Rightarrow> json" where
  "row_id n = JObject [(''id'', JNumber n)]"

text \<open>\<^verbatim>\<open>ExecSQLStream\<close> on a server that answers 200 with \<open>body\<close>, followed by
  \<open>n\<close> calls of \<^verbatim>\<open>Next\<close> into a \<^verbatim>\<open>*any\<close> destination: what each call returned,
  then \<^verbatim>\<open>Err()\<close>, whether the body is still open, and the input left unread.\<close>

definition stream_run ::
  "string \<Rightarrow> nat \<Rightarrow> ((bool \<times> json option) list \<times> go_error option \<times> bool \<times> string) option" where
  "stream_run body n =
     (case ExecSQLStream (answering (\<lambda>k. reply 200 [] body)) test_client ''P'' []
             (Some (Inr ''{\"sql\":\"SELECT 1\"}'')) of
        Some (Inr s, tr) \<Rightarrow>
          map_option (\<lambda>(rs, s'). (rs, RowScanner_Err s', body_open s', buf (dec s'))) (next_n n s)
      | _ \<Rightarrow> None)"

text \<open>What \<^verbatim>\<open>redactHeaders\<close> does to one value of the header named \<open>k\<close>.\<close>

definition redact_value :: "string \<Rightarrow> string \<Rightarrow> string" where
  "redact_value k v = (if EqualFold k ''x-api-key'' then mask_value v else v)"

text \<open>The request every attempt of a call builds: the body is marshalled anew each
  time, from the same input, so all attempts build the same request.\<close>

definition request_of ::
  "Client \<Rightarrow> string \<Rightarrow> string \<Rightarrow> header \<Rightarrow> (go_error + string) option \<Rightarrow> request" where
  "request_of c m u hdr inp =
     build_request c m u hdr (case makeBody inp of Inl e \<Rightarrow> None | Inr rc \<Rightarrow> rc)"

text \<open>A trace in which every logged header set is \<open>H\<close> and every request handed to
  the transport is \<open>req\<close>.\<close>

definition events_ok :: "header \<Rightarrow> request \<Rightarrow> event list \<Rightarrow> bool" where
  "events_ok H req tr = (set (logged_headers tr) \<subseteq> {H} \<and> set (sent_requests tr) \<subseteq> {req})"

definition logged_and_sent_keys ::
  "('a \<times> event list) option \<Rightarrow> (string list \<times> string list) option" where
  "logged_and_sent_keys x = map_option (\<lambda>(r, tr). (logged_api_keys tr, sent_api_keys tr)) x"

definition masked_looking_key :: string where
  "masked_looking_key = ''abcd'' @ ellipsis @ ''wxyz''"



text \<open>The scanner after \<^verbatim>\<open>ExecSQLStream\<close> on a 200 response with \<open>body\<close> and \<open>n\<close>
  calls of \<^verbatim>\<open>Next\<close>; the scanner that this gives for \<open>body_truncated\<close> after its two
  rows: the whole input has been read, inside the array of the object; and what a
  call of \<^verbatim>\<open>Next\<close> leaves to observe: its result, the row, \<^verbatim>\<open>Err()\<close>, the fields
  \<^verbatim>\<open>done\<close> and \<^verbatim>\<open>closer\<close> (non-nil or not), and the decoder.\<close>

definition scanner_after :: "string \<Rightarrow> nat \<Rightarrow> RowScanner option" where
  "scanner_after body n =
     (case ExecSQLStream (answering (\<lambda>k. reply 200 [] body)) test_client ''P'' []
             (Some (Inr ''{\"sql\":\"SELECT 1\"}'')) of
        Some (Inr s, tr) \<Rightarrow> map_option snd (next_n n s)
      | _ \<Rightarrow> None)"

definition truncated_scanner :: RowScanner where
  "truncated_scanner =
     \<lparr>dec = \<lparr>buf = [], err = None, tokenState = tokenArrayComma,
              tokenStack = [tokenObjectValue, tokenTopValue]\<rparr>,
      closer = True, body_open = True, inRows = True, finished = False, lastErr = None\<rparr>"

definition Next_outcome ::
  "(bool \<times> 'a option \<times> RowScanner) option \<Rightarrow>
   (bool \<times> 'a option \<times> go_error option \<times> bool \<times> bool \<times> Decoder) option" where
  "Next_outcome x =
     map_option (\<lambda>(more, row, s'). (more, row, RowScanner_Err s', finished s', closer s', dec s')) x"

section \<open>Theorems\<close>

subsection \<open>Arithmetic, traces and single iterations\<close>

lemma sdiv_100_eq_5: "(s::int) sdiv 100 = 5 \<longleftrightarrow> 500 \<le> s \<and> s \<le> 599"
  by (auto simp: signed_divide_int_def sgn_if)

lemma sdiv_100_eq_2: "(s::int) sdiv 100 = 2 \<longleftrightarrow> 200 \<le> s \<and> s \<le> 299"
  by (auto simp: signed_divide_int_def sgn_if)

lemma wrap64_id: "- (2 ^ 63) \<le> x \<Longrightarrow> x < 2 ^ 63 \<Longrightarrow> wrap64 x = x"
  by (simp add: wrap64_def)

lemma wrap64_le: "wrap64 x \<le> 2 ^ 63 - 1"
  by (simp add: wrap64_def)

lemma sent_requests_append: "sent_requests (xs @ ys) = sent_requests xs @ sent_requests ys"
  by (induction xs rule: sent_requests.induct) simp_all

lemma sent_requests_before_hooks: "sent_requests (map (\<lambda>i. BeforeHook i req) is) = []"
  by (induction "is") simp_all

lemma sent_requests_after_hooks: "sent_requests (map (\<lambda>i. AfterHook i r b e) is) = []"
  by (induction "is") simp_all

lemma sent_requests_before_send: "sent_requests (before_send c req a) = [req]"
  by (simp add: before_send_def sent_requests_append sent_requests_before_hooks)

lemma sent_requests_after_receive: "sent_requests (after_receive c req a res b) = []"
  by (simp add: after_receive_def sent_requests_append sent_requests_after_hooks)

lemma sleep_and_advance_fields:
  "attempt (sleep_and_advance E N mb st) = attempt st"
  "calls (sleep_and_advance E N mb st) = Suc (calls st)"
  "last_error (sleep_and_advance E N mb st) = last_error st"
  "sent_requests (trace (sleep_and_advance E N mb st)) = sent_requests (trace st)"
  by (simp_all add: sleep_and_advance_def sent_requests_append)


lemma doJSON_tail_wrapped:
  "last_error st = Some (Wrapped m u e) \<Longrightarrow>
   doJSON_tail E N mb st = Inr (sleep_and_advance E N mb st)"
  by (simp add: doJSON_tail_def)

lemma doJSON_tail_decode:
  "last_error st = Some (DecodeResponse e b) \<Longrightarrow>
   doJSON_tail E N mb st = Inr (sleep_and_advance E N mb st)"
  by (simp add: doJSON_tail_def)

lemma doJSON_iter_non2xx:
  assumes "makeBody inp = Inr rc" and "newRequestError E m u = None"
    and "transport E (calls st) (build_request c m u hdr rc) = Inr r"
    and "resp_status r sdiv 100 \<noteq> 2"
  shows "doJSON_iter E c m u hdr inp out N mb st =
     (let req = build_request c m u hdr rc;
          t = trace st @ before_send c req (attempt st) @
              after_receive c req (attempt st) (Inr r) (resp_body r);
          apiErr = parseAPIError E (resp_status r) (resp_body r)
      in if resp_status r = 429 \<or> resp_status r sdiv 100 = 5
         then Inr (sleep_and_advance E N mb
                (st\<lparr>trace := t, last_error := Some (Wrapped m u (Api apiErr)),
                    backoff := raise_backoff E (calls st) r (backoff st)\<rparr>))
         else Inl (Some (Api apiErr), t))"
  using assms by (simp add: doJSON_iter_def Let_def doJSON_tail_wrapped)

lemma doRequest_iter_response:
  assumes "makeBody inp = Inr rc" and "newRequestError E m u = None"
    and "transport E (calls st) (build_request c m u hdr rc) = Inr r"
  shows "doRequest_iter E c m u hdr inp N mb st =
     (let req = build_request c m u hdr rc;
          t = trace st @ before_send c req (attempt st);
          apiErr = parseAPIError E (resp_status r) (resp_body r)
      in if resp_status r sdiv 100 = 2 then Inl (Inr r, t)
         else if resp_status r = 429 \<or> resp_status r sdiv 100 = 5
         then Inr (sleep_and_advance E N mb
                (st\<lparr>trace := t, last_error := Some (Wrapped m u (Api apiErr)),
                    backoff := raise_backoff E (calls st) r (backoff st)\<rparr>))
         else Inl (Inl (Api apiErr), t))"
  using assms by (simp add: doRequest_iter_def Let_def)

lemma doJSON_loop_exit:
  "\<not> attempt st \<le> N \<Longrightarrow>
   doJSON_loop E c m u hdr inp out N mb st =
     Some (Some (FailedAfter (wrap64 (N + 1)) (last_error st)), trace st)"
  by (subst doJSON_loop.simps) simp

lemma doJSON_loop_step:
  "attempt st \<le> N \<Longrightarrow> doJSON_iter E c m u hdr inp out N mb st = Inr st' \<Longrightarrow>
   doJSON_loop E c m u hdr inp out N mb st =
     doJSON_loop E c m u hdr inp out N mb (st'\<lparr>attempt := wrap64 (attempt st' + 1)\<rparr>)"
  by (subst doJSON_loop.simps) simp

lemma doJSON_loop_return:
  "attempt st \<le> N \<Longrightarrow> doJSON_iter E c m u hdr inp out N mb st = Inl r \<Longrightarrow>
   doJSON_loop E c m u hdr inp out N mb st = Some r"
  by (subst doJSON_loop.simps) simp

lemma doRequest_loop_return:
  "attempt st \<le> N \<Longrightarrow> doRequest_iter E c m u hdr inp N mb st = Inl r \<Longrightarrow>
   doRequest_loop E c m u hdr inp N mb st = Some r"
  by (subst doRequest_loop.simps) simp

lemma retryable_range:
  "(s = 429 \<or> s sdiv 100 = 5) \<longleftrightarrow> (s = 429 \<or> (500 \<le> s \<and> s \<le> 599))" for s :: int
  by (simp add: sdiv_100_eq_5)

lemma makeBody_cases:
  "makeBody None = Inr None" "makeBody (Some (Inr b)) = Inr (Some b)"
  by (simp_all add: makeBody_def)

lemma normalizeRetries_nonneg: "0 \<le> N \<Longrightarrow> normalizeRetries N = N"
  by (simp add: normalizeRetries_def)

lemma normalizeRetries_ge0: "0 \<le> normalizeRetries N"
  by (simp add: normalizeRetries_def)

subsection \<open>The buffered executor\<close>

text \<open>
  \<^bold>\<open>C1.\<close> The claim: a decode failure of a 2xx body is terminal and never retried.
  The code: the failure is stored in \<^verbatim>\<open>lastErr\<close> and the loop goes on. With
  \<^verbatim>\<open>MaxRetries = 1\<close>, a decode target, and a server that answers every request with
  status 200 and the body \<^verbatim>\<open>{"ok":true,"row_count":"not-an-int"}\<close>, \<^verbatim>\<open>doJSON\<close> sends
  two requests and returns the retries-exhausted error around the decode error.
\<close>

theorem decode_failure_is_retried:
  "result_and_requests
     (doJSON (answering (\<lambda>n. reply 200 [] bad_body)) (test_client\<lparr>MaxRetries := 1\<rparr>)
        ''POST'' ''/warlotSql/projects/P/sql'' (authHeaders test_client)
        (Some (Inr ''{\"sql\":\"CREATE TABLE t(x)\"}'')) (Some rejecting)) =
   Some (Some (FailedAfter 2 (Some (DecodeResponse unmarshal_type_error bad_body))), 2)"
  by code_simp

text \<open>
  \<^bold>\<open>C2.\<close> The claim: a Retry-After larger than the jittered delay makes the wait at
  least the Retry-After. The code: the Retry-After replaces \<^verbatim>\<open>backoff\<close>, and
  \<^verbatim>\<open>jitterSleep\<close> then waits between half of it and all of it, capped by
  \<^verbatim>\<open>MaxBackoff\<close>. With an initial backoff of 200ms, a first answer 429 with
  \<^verbatim>\<open>Retry-After: 1\<close> (parsed as 1000ms) and the jitter draw 0, the one wait before
  the second attempt is 500ms.
\<close>

theorem retry_after_is_jittered:
  "parseRetryAfter (answering (\<lambda>n. reply 200 [] [])) 0 ''1'' = 1000 * millisecond \<and>
   result_and_waits
     (doJSON (answering (\<lambda>n. if n = 0 then reply 429 ''1'' ''{\"message\":\"rate limit\"}''
                              else reply 200 [] ''{\"ok\":true,\"row_count\":0}''))
        (test_client\<lparr>MaxRetries := 2\<rparr>)
        ''POST'' ''/warlotSql/projects/P/sql'' (authHeaders test_client)
        (Some (Inr ''{\"sql\":\"CREATE TABLE t(x)\"}'')) None) =
   Some (None, [500 * millisecond])"
  by code_simp

lemma doJSON_loop_503:
  assumes mk: "makeBody inp = Inr rc" and nr: "newRequestError E m u = None"
    and tr: "\<And>n. transport E n (build_request c m u hdr rc) = Inr (resp n)"
    and st: "\<And>n. resp_status (resp n) = 503"
    and N: "N < 2 ^ 63 - 1"
  shows "0 \<le> attempt st \<Longrightarrow> attempt st \<le> N \<Longrightarrow> calls st = nat (attempt st) \<Longrightarrow>
    \<exists>t. doJSON_loop E c m u hdr inp out N mb st =
        Some (Some (FailedAfter (N + 1)
          (Some (Wrapped m u (Api (parseAPIError E 503 (resp_body (resp (nat N)))))))), t) \<and>
        requests_sent t = requests_sent (trace st) + nat (N + 1 - attempt st)"
proof (induction "nat (N - attempt st)" arbitrary: st)
  case 0
  then have a: "attempt st = N" by simp
  let ?req = "build_request c m u hdr rc"
  let ?st' = "sleep_and_advance E N mb
      (st\<lparr>trace := trace st @ before_send c ?req (attempt st) @
                after_receive c ?req (attempt st) (Inr (resp (calls st))) (resp_body (resp (calls st))),
          last_error := Some (Wrapped m u (Api (parseAPIError E 503 (resp_body (resp (calls st)))))),
          backoff := raise_backoff E (calls st) (resp (calls st)) (backoff st)\<rparr>)"
  have it: "doJSON_iter E c m u hdr inp out N mb st = Inr ?st'"
    using doJSON_iter_non2xx [OF mk nr tr, of st out N mb]
    by (simp add: st Let_def signed_divide_int_def)
  have w: "wrap64 (N + 1) = N + 1"
    using N 0 by (intro wrap64_id) auto
  have "doJSON_loop E c m u hdr inp out N mb st =
      doJSON_loop E c m u hdr inp out N mb (?st'\<lparr>attempt := wrap64 (attempt ?st' + 1)\<rparr>)"
    using 0 it by (intro doJSON_loop_step) auto
  also have "\<dots> = Some (Some (FailedAfter (wrap64 (N + 1)) (last_error ?st')), trace ?st')"
    by (subst doJSON_loop_exit) (simp_all add: sleep_and_advance_fields a w)
  finally show ?case
    using 0 a
    by (simp add: w sleep_and_advance_fields requests_sent_def sent_requests_append
        sent_requests_before_send sent_requests_after_receive)
next
  case (Suc k)
  then have a: "attempt st < N" by simp
  let ?req = "build_request c m u hdr rc"
  define st' where "st' = sleep_and_advance E N mb
      (st\<lparr>trace := trace st @ before_send c ?req (attempt st) @
                after_receive c ?req (attempt st) (Inr (resp (calls st))) (resp_body (resp (calls st))),
          last_error := Some (Wrapped m u (Api (parseAPIError E 503 (resp_body (resp (calls st)))))),
          backoff := raise_backoff E (calls st) (resp (calls st)) (backoff st)\<rparr>)"
  define st'' where "st'' = st'\<lparr>attempt := wrap64 (attempt st' + 1)\<rparr>"
  have it: "doJSON_iter E c m u hdr inp out N mb st = Inr st'"
    using doJSON_iter_non2xx [OF mk nr tr, of st out N mb]
    by (simp add: st Let_def signed_divide_int_def st'_def)
  have w: "wrap64 (attempt st + 1) = attempt st + 1"
    using N a Suc.prems by (intro wrap64_id) auto
  have step: "doJSON_loop E c m u hdr inp out N mb st = doJSON_loop E c m u hdr inp out N mb st''"
    unfolding st''_def using Suc.prems it by (intro doJSON_loop_step) auto
  have att: "attempt st'' = attempt st + 1"
    by (simp add: st''_def st'_def sleep_and_advance_fields w)
  have cl: "calls st'' = Suc (calls st)"
    by (simp add: st''_def st'_def sleep_and_advance_fields)
  have cnt: "requests_sent (trace st'') = requests_sent (trace st) + 1"
    by (simp add: st''_def st'_def sleep_and_advance_fields requests_sent_def sent_requests_append
        sent_requests_before_send sent_requests_after_receive)
  have "k = nat (N - attempt st'')" using Suc.hyps(2) att by simp
  moreover have "0 \<le> attempt st''" "attempt st'' \<le> N" using att a Suc.prems by simp_all
  moreover have "calls st'' = nat (attempt st'')"
    using att cl Suc.prems by (simp add: nat_add_distrib)
  ultimately obtain t where t: "doJSON_loop E c m u hdr inp out N mb st'' =
        Some (Some (FailedAfter (N + 1)
          (Some (Wrapped m u (Api (parseAPIError E 503 (resp_body (resp (nat N)))))))), t)"
      "requests_sent t = requests_sent (trace st'') + nat (N + 1 - attempt st'')"
    using Suc.hyps(1) [of st''] by blast
  have ar: "1 + nat (N + 1 - (attempt st + 1)) = nat (N + 1 - attempt st)"
    using a by linarith
  have "requests_sent t = requests_sent (trace st) + nat (N + 1 - attempt st)"
    using t(2) cnt att ar by simp
  with t(1) step show ?case by simp
qed

text \<open>
  With \<^verbatim>\<open>retries\<close> at the largest \<^verbatim>\<open>int\<close> the loop condition
  \<^verbatim>\<open>attempt <= retries\<close> holds for every value of \<^verbatim>\<open>attempt\<close>, also after
  \<^verbatim>\<open>attempt++\<close> has wrapped: against a server that answers 503 every time the loop
  never ends.
\<close>

lemma doJSON_loop_diverges:
  assumes mk: "makeBody inp = Inr rc" and nr: "newRequestError E m u = None"
    and tr: "\<And>n. transport E n (build_request c m u hdr rc) = Inr (resp n)"
    and st: "\<And>n. resp_status (resp n) = 503"
    and a: "attempt st \<le> 2 ^ 63 - 1"
  shows "doJSON_loop E c m u hdr inp out (2 ^ 63 - 1) mb st = None"
proof (cases "doJSON_loop E c m u hdr inp out (2 ^ 63 - 1) mb st")
  case None
  then show ?thesis .
next
  case (Some y)
  have "\<not> (E = E \<and> c = c \<and> m = m \<and> u = u \<and> hdr = hdr \<and> inp = inp \<and>
           (2 ^ 63 - 1 :: int) = 2 ^ 63 - 1 \<and> attempt st \<le> 2 ^ 63 - 1)"
  proof (rule doJSON_loop.raw_induct [where P = "\<lambda>E' c' m' u' hdr' inp' out' N' mb' st' y.
      \<not> (E' = E \<and> c' = c \<and> m' = m \<and> u' = u \<and> hdr' = hdr \<and> inp' = inp \<and> N' = 2 ^ 63 - 1 \<and>
         attempt st' \<le> 2 ^ 63 - 1)", OF _ Some], goal_cases)
    case (1 f E' c' m' u' hdr' inp' out' N' mb' st' y)
    show ?case
    proof
      assume h: "E' = E \<and> c' = c \<and> m' = m \<and> u' = u \<and> hdr' = hdr \<and> inp' = inp \<and>
          N' = 2 ^ 63 - 1 \<and> attempt st' \<le> 2 ^ 63 - 1"
      obtain st1 where it: "doJSON_iter E c m u hdr inp out' (2 ^ 63 - 1) mb' st' = Inr st1"
        using doJSON_iter_non2xx [OF mk nr tr, of st' out' "2 ^ 63 - 1" mb']
        by (simp add: st Let_def signed_divide_int_def)
      from 1(2) h it
      have "f E c m u hdr inp out' (2 ^ 63 - 1) mb' (st1\<lparr>attempt := wrap64 (attempt st1 + 1)\<rparr>) = Some y"
        by simp
      from 1(1) [OF this] show False using wrap64_le by simp
    qed
  qed
  with a show ?thesis by simp
qed

text \<open>
  \<^bold>\<open>C3\<close>, as the code has it. For \<^verbatim>\<open>MaxRetries = N\<close> with \<open>0 \<le> N < 2 ^ 63 - 1\<close>, so
  that \<open>N + 1\<close> is an \<^verbatim>\<open>int\<close>, when the request can be built and the server answers
  every attempt with status 503, \<^verbatim>\<open>doJSON\<close> hands exactly \<open>N + 1\<close> requests to the
  transport and returns
  \<^verbatim>\<open>warlot request failed after N+1 attempts\<close> wrapping the API error of the last
  response.
\<close>

theorem doJSON_attempt_budget:
  assumes "0 \<le> N" and "N < 2 ^ 63 - 1" and "MaxRetries c = N"
    and "makeBody inp = Inr rc"
    and "newRequestError E m (BaseURL c @ path) = None"
    and "\<forall>n. transport E n (build_request c m (BaseURL c @ path) hdr rc) = Inr (resp n) \<and>
             resp_status (resp n) = 503"
  shows "result_and_requests (doJSON E c m path hdr inp out) =
     Some (Some (FailedAfter (N + 1)
       (Some (Wrapped m (BaseURL c @ path)
          (Api (parseAPIError E 503 (resp_body (resp (nat N)))))))), nat N + 1)"
proof -
  let ?u = "BaseURL c @ path"
  let ?bm = "normalizeBackoff (InitialBackoff c) (MaxBackoff c)"
  let ?st = "\<lparr>attempt = 0, calls = 0, backoff = fst ?bm, last_error = None, trace = []\<rparr>"
  have tr: "\<And>n. transport E n (build_request c m ?u hdr rc) = Inr (resp n)"
    and st: "\<And>n. resp_status (resp n) = 503"
    using assms(6) by simp_all
  obtain t where t: "doJSON_loop E c m ?u hdr inp out N (snd ?bm) ?st =
        Some (Some (FailedAfter (N + 1)
          (Some (Wrapped m ?u (Api (parseAPIError E 503 (resp_body (resp (nat N)))))))), t)"
      "requests_sent t = requests_sent (trace ?st) + nat (N + 1 - attempt ?st)"
    using doJSON_loop_503 [OF assms(4) assms(5) tr st assms(2), of ?st out "snd ?bm"] assms(1)
    by auto
  have "requests_sent t = nat N + 1"
    using t(2) assms(1) by (simp add: requests_sent_def nat_add_distrib)
  with t(1) show ?thesis
    by (simp add: doJSON_def Let_def normalizeRetries_nonneg assms(1) assms(3)
        result_and_requests_def)
qed

text \<open>
  \<^bold>\<open>C3\<close>, as the claim states it, for every \<open>N \<ge> 0\<close>, fails at the largest
  \<^verbatim>\<open>int\<close>: with \<^verbatim>\<open>MaxRetries = 9223372036854775807\<close> and a server that answers 503
  every time, \<^verbatim>\<open>doJSON\<close> does not return, so there is neither a last request nor an
  error holding an attempt count.
\<close>

theorem doJSON_never_returns_at_max_retries:
  "result_and_requests
     (doJSON busy_server (test_client\<lparr>MaxRetries := 2 ^ 63 - 1\<rparr>)
        ''GET'' ''/warlotSql/projects/P/tables'' (authHeaders test_client) None None) = None"
proof -
  let ?c = "test_client\<lparr>MaxRetries := 2 ^ 63 - 1\<rparr>"
  let ?r = "\<lparr>resp_status = 503, resp_retry_after = [], resp_body = busy_body\<rparr>"
  have mk: "makeBody None = Inr None" by (simp add: makeBody_def)
  have nr: "newRequestError busy_server ''GET'' u = None" for u
    by (simp add: busy_server_def answering_def)
  have tr: "transport busy_server n req = Inr ?r" for n req
    by (simp add: busy_server_def answering_def reply_def)
  have nm: "normalizeRetries (MaxRetries ?c) = 2 ^ 63 - 1"
    by (simp add: normalizeRetries_def)
  have "doJSON busy_server ?c ''GET'' ''/warlotSql/projects/P/tables'' (authHeaders test_client)
      None None = None"
    unfolding doJSON_def Let_def nm
    by (rule doJSON_loop_diverges [OF mk nr, where resp = "\<lambda>n. ?r"]) (simp_all add: tr)
  then show ?thesis by (simp add: result_and_requests_def)
qed

theorem doJSON_attempt_budget_witness:
  "result_and_requests
     (doJSON busy_server (test_client\<lparr>MaxRetries := 2\<rparr>)
        ''GET'' ''/warlotSql/projects/P/tables'' (authHeaders test_client) None None) =
   Some (Some (FailedAfter 3
     (Some (Wrapped ''GET'' ''http://127.0.0.1:8080/warlotSql/projects/P/tables''
        (Api \<lparr>StatusCode = 503, Body = busy_body, Message = ''busy'', Code = [],
              Details = None\<rparr>)))), 3)"
proof -
  let ?c = "test_client\<lparr>MaxRetries := 2\<rparr>"
  let ?r = "\<lparr>resp_status = 503, resp_retry_after = [], resp_body = busy_body\<rparr>"
  have 1: "(0::int) \<le> 2" and 2: "(2::int) < 2 ^ 63 - 1" by simp_all
  have 3: "MaxRetries ?c = 2" by simp
  have 4: "makeBody None = Inr None" by (simp add: makeBody_def)
  have 5: "newRequestError busy_server ''GET'' (BaseURL ?c @ ''/warlotSql/projects/P/tables'') = None"
    by (simp add: busy_server_def answering_def)
  have 6: "\<forall>n. transport busy_server n (build_request ?c ''GET''
        (BaseURL ?c @ ''/warlotSql/projects/P/tables'') (authHeaders test_client) None) = Inr ?r \<and>
      resp_status ?r = 503"
    by (simp add: busy_server_def answering_def reply_def)
  have p: "parseAPIError busy_server 503 busy_body =
      \<lparr>StatusCode = 503, Body = busy_body, Message = ''busy'', Code = [], Details = None\<rparr>"
    by code_simp
  show ?thesis
    using doJSON_attempt_budget [OF 1 2 3 4 5, where resp = "\<lambda>n. ?r", OF 6, of None]
    by (simp add: p test_client_def)
qed


text \<open>
  \<^bold>\<open>C5.\<close> The claim: a received response is retryable exactly when its status is 429
  or in 500..599. The code: \<^verbatim>\<open>doJSON\<close> also goes on to another attempt after a 2xx
  response whose body fails to decode (the defect of C1). With the default
  \<^verbatim>\<open>MaxRetries = 3\<close>, a decode target, a first answer 200 with the body
  \<^verbatim>\<open>{"ok":true,"row_count":"not-an-int"}\<close> and a second answer 400, \<^verbatim>\<open>doJSON\<close> sends
  two requests and returns the API error of the second response: the response with
  status 200 was treated as retryable.
\<close>

theorem undecodable_200_is_treated_as_retryable:
  "result_and_requests
     (doJSON bad_200_then_400 test_client ''POST'' ''/warlotSql/projects/P/sql''
        (authHeaders test_client) (Some (Inr ''{\"sql\":\"CREATE TABLE t(x)\"}''))
        (Some rejecting)) =
   Some (Some (Api \<lparr>StatusCode = 400, Body = bad_request_body, Message = ''bad request'',
                    Code = ''E400'', Details = None\<rparr>), 2)"
  by code_simp

text \<open>
  For a response that is not 2xx the code does what the claim says. Such a response
  makes an iteration of \<^verbatim>\<open>doJSON\<close> go on to another attempt exactly when the status
  is 429 or in 500..599; an iteration of \<^verbatim>\<open>doRequest\<close> goes on exactly for these
  statuses (a 2xx response is returned). When the first response has any other
  non-2xx status, both executors return the \<^verbatim>\<open>APIError\<close> parsed from it after exactly
  one request, whatever \<^verbatim>\<open>MaxRetries\<close> is. After a 429, both executors send the request
  again.
\<close>

lemma non_2xx_retry_iff_429_or_5xx:
  assumes "makeBody inp = Inr rc"
    and "newRequestError E m (BaseURL c @ path) = None"
    and "transport E (calls st) (build_request c m (BaseURL c @ path) hdr rc) = Inr r"
    and "transport E 0 (build_request c m (BaseURL c @ path) hdr rc) = Inr r0"
    and "\<not> (200 \<le> resp_status r0 \<and> resp_status r0 \<le> 299)"
    and "resp_status r0 \<noteq> 429"
    and "\<not> (500 \<le> resp_status r0 \<and> resp_status r0 \<le> 599)"
  shows
    "(\<not> (200 \<le> resp_status r \<and> resp_status r \<le> 299) \<longrightarrow>
        goes_on (doJSON_iter E c m (BaseURL c @ path) hdr inp out N mb st) =
          (resp_status r = 429 \<or> (500 \<le> resp_status r \<and> resp_status r \<le> 599))) \<and>
     goes_on (doRequest_iter E c m (BaseURL c @ path) hdr inp N mb st) =
       (resp_status r = 429 \<or> (500 \<le> resp_status r \<and> resp_status r \<le> 599)) \<and>
     result_and_requests (doJSON E c m path hdr inp out) =
       Some (Some (Api (parseAPIError E (resp_status r0) (resp_body r0))), 1) \<and>
     result_and_requests (doRequest E c m path hdr inp) =
       Some (Inl (Api (parseAPIError E (resp_status r0) (resp_body r0))), 1)"
proof -
  let ?u = "BaseURL c @ path"
  let ?bm = "normalizeBackoff (InitialBackoff c) (MaxBackoff c)"
  let ?st0 = "\<lparr>attempt = 0, calls = 0, backoff = fst ?bm, last_error = None, trace = []\<rparr>"
  let ?R = "normalizeRetries (MaxRetries c)"
  let ?req = "build_request c m ?u hdr rc"
  have A: "\<not> (200 \<le> resp_status r \<and> resp_status r \<le> 299) \<longrightarrow>
        goes_on (doJSON_iter E c m ?u hdr inp out N mb st) =
          (resp_status r = 429 \<or> (500 \<le> resp_status r \<and> resp_status r \<le> 599))"
    using doJSON_iter_non2xx [OF assms(1) assms(2) assms(3), of out N mb]
    by (auto simp: goes_on_def Let_def sdiv_100_eq_2 sdiv_100_eq_5)
  have B: "goes_on (doRequest_iter E c m ?u hdr inp N mb st) =
       (resp_status r = 429 \<or> (500 \<le> resp_status r \<and> resp_status r \<le> 599))"
    using doRequest_iter_response [OF assms(1) assms(2) assms(3), of N mb]
    by (auto simp: goes_on_def Let_def sdiv_100_eq_2 sdiv_100_eq_5)
  have t0: "transport E (calls ?st0) ?req = Inr r0"
    using assms(4) by simp
  have n2: "resp_status r0 sdiv 100 \<noteq> 2" and n5: "resp_status r0 sdiv 100 \<noteq> 5"
    using assms(5) assms(7) by (simp_all add: sdiv_100_eq_2 sdiv_100_eq_5)
  have itJ: "doJSON_iter E c m ?u hdr inp out ?R (snd ?bm) ?st0 =
      Inl (Some (Api (parseAPIError E (resp_status r0) (resp_body r0))),
           before_send c ?req 0 @ after_receive c ?req 0 (Inr r0) (resp_body r0))"
    using doJSON_iter_non2xx [OF assms(1) assms(2) t0 n2, of out ?R "snd ?bm"] n5 assms(6)
    by (simp add: Let_def)
  have itR: "doRequest_iter E c m ?u hdr inp ?R (snd ?bm) ?st0 =
      Inl (Inl (Api (parseAPIError E (resp_status r0) (resp_body r0))), before_send c ?req 0)"
    using doRequest_iter_response [OF assms(1) assms(2) t0, of ?R "snd ?bm"] n2 n5 assms(6)
    by (simp add: Let_def)
  have a0: "attempt ?st0 \<le> ?R"
    by (simp add: normalizeRetries_ge0)
  have C: "result_and_requests (doJSON E c m path hdr inp out) =
       Some (Some (Api (parseAPIError E (resp_status r0) (resp_body r0))), 1)"
    using doJSON_loop_return [OF a0 itJ]
    by (simp add: doJSON_def Let_def result_and_requests_def requests_sent_def
        sent_requests_append sent_requests_before_send sent_requests_after_receive)
  have D: "result_and_requests (doRequest E c m path hdr inp) =
       Some (Inl (Api (parseAPIError E (resp_status r0) (resp_body r0))), 1)"
    using doRequest_loop_return [OF a0 itR]
    by (simp add: doRequest_def Let_def result_and_requests_def requests_sent_def
        sent_requests_before_send)
  from A B C D show ?thesis by blast
qed



lemma non_2xx_retry_iff_429_or_5xx_example:
  "goes_on (doJSON_iter bad_request_then_busy test_client ''POST''
      (BaseURL test_client @ ''/warlotSql/projects/P/sql'') (authHeaders test_client) None None
      3 (2 * second)
      \<lparr>attempt = 1, calls = 1, backoff = 400 * millisecond, last_error = None, trace = []\<rparr>) \<and>
   goes_on (doRequest_iter bad_request_then_busy test_client ''POST''
      (BaseURL test_client @ ''/warlotSql/projects/P/sql'') (authHeaders test_client) None
      3 (2 * second)
      \<lparr>attempt = 1, calls = 1, backoff = 400 * millisecond, last_error = None, trace = []\<rparr>) \<and>
   result_and_requests
     (doJSON bad_request_then_busy test_client ''POST'' ''/warlotSql/projects/P/sql''
        (authHeaders test_client) None None) =
     Some (Some (Api \<lparr>StatusCode = 400, Body = bad_request_body, Message = ''bad request'',
                      Code = ''E400'', Details = None\<rparr>), 1) \<and>
   result_and_requests
     (doRequest bad_request_then_busy test_client ''POST'' ''/warlotSql/projects/P/sql''
        (authHeaders test_client) None) =
     Some (Inl (Api \<lparr>StatusCode = 400, Body = bad_request_body, Message = ''bad request'',
                      Code = ''E400'', Details = None\<rparr>), 1)"
proof -
  let ?E = "bad_request_then_busy"
  let ?st = "\<lparr>attempt = 1, calls = 1, backoff = 400 * millisecond, last_error = None, trace = []\<rparr>"
  let ?later = "\<lparr>resp_status = 503, resp_retry_after = [], resp_body = busy_body\<rparr>"
  let ?first = "\<lparr>resp_status = 400, resp_retry_after = [], resp_body = bad_request_body\<rparr>"
  let ?req = "build_request test_client ''POST'' (BaseURL test_client @ ''/warlotSql/projects/P/sql'')
      (authHeaders test_client) None"
  have 1: "makeBody None = Inr None" by (simp add: makeBody_def)
  have 2: "newRequestError ?E ''POST'' (BaseURL test_client @ ''/warlotSql/projects/P/sql'') = None"
    by (simp add: bad_request_then_busy_def answering_def)
  have 3: "transport ?E (calls ?st) ?req = Inr ?later"
    by (simp add: bad_request_then_busy_def answering_def reply_def)
  have 4: "transport ?E 0 ?req = Inr ?first"
    by (simp add: bad_request_then_busy_def answering_def reply_def)
  have 5: "\<not> (200 \<le> resp_status ?first \<and> resp_status ?first \<le> 299)" by simp
  have 6: "resp_status ?first \<noteq> 429" by simp
  have 7: "\<not> (500 \<le> resp_status ?first \<and> resp_status ?first \<le> 599)" by simp
  have p: "parseAPIError ?E 400 bad_request_body =
      \<lparr>StatusCode = 400, Body = bad_request_body, Message = ''bad request'', Code = ''E400'',
       Details = None\<rparr>"
    by code_simp
  show ?thesis
    using non_2xx_retry_iff_429_or_5xx [OF 1 2 3 4 5 6 7, of None 3 "2 * second"]
    by (simp add: p)
qed

lemma retryable_response_is_sent_again:
  "result_and_requests
     (doJSON rate_limited_once test_client ''GET'' ''/warlotSql/projects/P/tables''
        (authHeaders test_client) None None) = Some (None, 2) \<and>
   result_and_requests
     (doRequest rate_limited_once test_client ''GET'' ''/warlotSql/projects/P/tables''
        (authHeaders test_client) None) =
     Some (Inr \<lparr>resp_status = 200, resp_retry_after = [], resp_body = []\<rparr>, 2)"
  by code_simp

subsection \<open>Redaction of the API key\<close>

lemma canonical_keys:
  "CanonicalMIMEHeaderKey ''Content-Type'' = ''Content-Type''"
  "CanonicalMIMEHeaderKey ''User-Agent'' = ''User-Agent''"
  "CanonicalMIMEHeaderKey ''x-api-key'' = ''X-Api-Key''"
  "CanonicalMIMEHeaderKey ''X-Api-Key'' = ''X-Api-Key''"
  "CanonicalMIMEHeaderKey ''x-holder-id'' = ''X-Holder-Id''"
  "CanonicalMIMEHeaderKey ''X-Holder-Id'' = ''X-Holder-Id''"
  "CanonicalMIMEHeaderKey ''x-project-name'' = ''X-Project-Name''"
  "CanonicalMIMEHeaderKey ''X-Project-Name'' = ''X-Project-Name''"
  by code_simp+

lemma EqualFold_keys:
  "EqualFold ''X-Api-Key'' ''x-api-key''"
  "\<not> EqualFold ''Content-Type'' ''x-api-key''"
  "\<not> EqualFold ''User-Agent'' ''x-api-key''"
  "\<not> EqualFold ''X-Holder-Id'' ''x-api-key''"
  "\<not> EqualFold ''X-Project-Name'' ''x-api-key''"
  by code_simp+

lemma mask_value_differs:
  assumes "8 < length v" and "\<not> (length v = 15 \<and> take 7 (drop 4 v) = ellipsis)"
  shows "mask_value v \<noteq> v"
proof
  assume eq: "mask_value v = v"
  have m: "mask_value v = take 4 v @ ellipsis @ drop (length v - 4) v"
    using assms(1) by (simp add: mask_value_def)
  have "length (mask_value v) = 15"
    using assms(1) unfolding m by (simp add: ellipsis_def)
  then have l: "length v = 15" using eq by simp
  have "drop 4 (mask_value v) = ellipsis @ drop (length v - 4) v"
    unfolding m using assms(1) by simp
  then have "drop 4 v = ellipsis @ drop (length v - 4) v" using eq by simp
  then have "take 7 (drop 4 v) = ellipsis" by (simp add: ellipsis_def)
  with l assms(2) show False by simp
qed

lemma update_fresh: "k \<notin> fst ` set al \<Longrightarrow> AList.update k v al = al @ [(k, v)]"
  by (induction al) auto

lemma authHeaders_entries:
  "authHeaders c =
     (if APIKey c \<noteq> [] then [(''X-Api-Key'', [APIKey c])] else []) @
     (if HolderID c \<noteq> [] then [(''X-Holder-Id'', [HolderID c])] else []) @
     (if ProjectName c \<noteq> [] then [(''X-Project-Name'', [ProjectName c])] else [])"
  by (simp add: authHeaders_def header_Set_def canonical_keys)


lemma req_header_auth:
  "req_header (build_request c m u (authHeaders c) rc) =
     [(''Content-Type'', [''application/json''])] @
     (if UserAgent c \<noteq> [] then [(''User-Agent'', [UserAgent c])] else []) @ authHeaders c"
  by (simp add: build_request_def mergeHeaders_def header_Set_def header_Add_def canonical_keys authHeaders_entries)

lemma update_last: "k \<notin> fst ` set cp \<Longrightarrow> AList.update k v (cp @ [(k, w)]) = cp @ [(k, v)]"
  by (induction cp) auto

lemma map_of_last: "k \<notin> fst ` set cp \<Longrightarrow> map_of (cp @ [(k, w)]) k = Some w"
  by (induction cp) auto

lemma map_of_fresh: "k \<notin> fst ` set cp \<Longrightarrow> map_of cp k = None"
  by (simp add: map_of_eq_None_iff)

lemma header_Add_last:
  "CanonicalMIMEHeaderKey k = k \<Longrightarrow> k \<notin> fst ` set cp \<Longrightarrow>
   header_Add (cp @ [(k, ws)]) k x = cp @ [(k, ws @ [x])]"
  by (simp add: header_Add_def map_of_last update_last del: map_of_append)

lemma header_Add_fresh:
  "CanonicalMIMEHeaderKey k = k \<Longrightarrow> k \<notin> fst ` set cp \<Longrightarrow>
   header_Add cp k x = cp @ [(k, [x])]"
  by (simp add: header_Add_def map_of_fresh update_fresh)

lemma add_values_last:
  assumes "CanonicalMIMEHeaderKey k = k" and "k \<notin> fst ` set cp"
  shows "foldl (\<lambda>cp' v. header_Add cp' k (g v)) (cp @ [(k, ws)]) vs = cp @ [(k, ws @ map g vs)]"
  using assms
  by (induction vs arbitrary: ws) (simp_all add: header_Add_last)

lemma add_values_fresh:
  assumes "CanonicalMIMEHeaderKey k = k" and "k \<notin> fst ` set cp" and "vs \<noteq> []"
  shows "foldl (\<lambda>cp' v. header_Add cp' k (g v)) cp vs = cp @ [(k, map g vs)]"
proof (cases vs)
  case Nil
  with assms(3) show ?thesis by simp
next
  case (Cons v vs')
  have "header_Add cp k (g v) = cp @ [(k, [g v])]"
    using assms(1) assms(2) by (rule header_Add_fresh)
  then show ?thesis
    using add_values_last [OF assms(1) assms(2), of g "[g v]" vs'] Cons by simp
qed

lemma add_entries:
  "distinct (map fst h) \<Longrightarrow> \<forall>(k, vs) \<in> set h. CanonicalMIMEHeaderKey k = k \<and> vs \<noteq> [] \<Longrightarrow>
   fst ` set acc \<inter> fst ` set h = {} \<Longrightarrow>
   foldl (\<lambda>cp (k, vs). foldl (\<lambda>cp' v. header_Add cp' k (g k v)) cp vs) acc h =
     acc @ map (\<lambda>(k, vs). (k, map (g k) vs)) h"
proof (induction h arbitrary: acc)
  case Nil
  then show ?case by simp
next
  case (Cons e h)
  obtain k vs where e: "e = (k, vs)" by (cases e)
  have k: "CanonicalMIMEHeaderKey k = k" "vs \<noteq> []" "k \<notin> fst ` set acc" "k \<notin> fst ` set h"
    using Cons.prems e by auto
  have step: "foldl (\<lambda>cp' v. header_Add cp' k (g k v)) acc vs = acc @ [(k, map (g k) vs)]"
    using add_values_fresh [OF k(1) k(3) k(2)] .
  have "fst ` set (acc @ [(k, map (g k) vs)]) \<inter> fst ` set h = {}"
    using Cons.prems k e by auto
  moreover have "distinct (map fst h)" "\<forall>(k, vs) \<in> set h. CanonicalMIMEHeaderKey k = k \<and> vs \<noteq> []"
    using Cons.prems by auto
  ultimately show ?case
    using Cons.IH [of "acc @ [(k, map (g k) vs)]"] step e by simp
qed

lemma redactHeaders_alt:
  "redactHeaders h =
     foldl (\<lambda>cp (k, vs). foldl (\<lambda>cp' v. header_Add cp' k (redact_value k v)) cp vs) [] h"
proof -
  have "(\<lambda>cp (k, vs). foldl (\<lambda>cp' v. if EqualFold k ''x-api-key'' then header_Add cp' k (mask_value v)
            else header_Add cp' k v) cp vs) =
        (\<lambda>cp (k, vs). foldl (\<lambda>cp' v. header_Add cp' k (redact_value k v)) cp vs)"
    by (intro ext) (simp add: redact_value_def if_distrib split: prod.splits cong: if_cong)
  then show ?thesis by (simp add: redactHeaders_def)
qed

lemma redactHeaders_map:
  assumes "distinct (map fst h)" and "\<forall>(k, vs) \<in> set h. CanonicalMIMEHeaderKey k = k \<and> vs \<noteq> []"
  shows "redactHeaders h = map (\<lambda>(k, vs). (k, map (redact_value k) vs)) h"
  using add_entries [OF assms, of "[]" redact_value] by (simp add: redactHeaders_alt)

lemma map_of_map_values:
  "map_of (map (\<lambda>(k, vs). (k, f k vs)) h) k = map_option (f k) (map_of h k)"
  by (induction h) auto


lemma req_header_wellformed:
  "distinct (map fst (req_header (build_request c m u (authHeaders c) rc))) \<and>
   (\<forall>(k, vs) \<in> set (req_header (build_request c m u (authHeaders c) rc)).
      CanonicalMIMEHeaderKey k = k \<and> vs \<noteq> [])"
  unfolding req_header_auth by (simp add: authHeaders_entries canonical_keys)

lemma req_header_lookup:
  "APIKey c \<noteq> [] \<Longrightarrow>
   map_of (req_header (build_request c m u (authHeaders c) rc)) ''X-Api-Key'' = Some [APIKey c]"
  unfolding req_header_auth by (simp add: authHeaders_entries)

lemma request_api_key:
  assumes "APIKey c \<noteq> []"
  shows "header_Get (req_header (build_request c m u (authHeaders c) rc)) ''x-api-key'' = APIKey c \<and>
         header_Get (redactHeaders (req_header (build_request c m u (authHeaders c) rc))) ''x-api-key'' =
         mask_value (APIKey c)"
proof -
  let ?h = "req_header (build_request c m u (authHeaders c) rc)"
  have r: "redactHeaders ?h = map (\<lambda>(k, vs). (k, map (redact_value k) vs)) ?h"
    using req_header_wellformed [of c m u rc] by (intro redactHeaders_map) simp_all
  have "map_of (redactHeaders ?h) ''X-Api-Key'' = Some [mask_value (APIKey c)]"
    unfolding r map_of_map_values
    by (simp add: req_header_lookup [OF assms] redact_value_def EqualFold_keys del: EqualFold.simps)
  then show ?thesis
    by (simp add: header_Get_def canonical_keys req_header_lookup [OF assms])
qed

lemma logged_headers_append: "logged_headers (xs @ ys) = logged_headers xs @ logged_headers ys"
  by (induction xs rule: logged_headers.induct) simp_all

lemma logged_headers_before_hooks: "logged_headers (map (\<lambda>i. BeforeHook i req) is) = []"
  by (induction "is") simp_all

lemma logged_headers_after_hooks: "logged_headers (map (\<lambda>i. AfterHook i r b e) is) = []"
  by (induction "is") simp_all

lemma logged_headers_before_send:
  "logged_headers (before_send c req a) = (if Logger c then [redactHeaders (req_header req)] else [])"
  by (simp add: before_send_def logged_headers_append logged_headers_before_hooks)

lemma logged_headers_after_receive: "logged_headers (after_receive c req a res b) = []"
  by (simp add: after_receive_def logged_headers_append logged_headers_after_hooks)

lemma sleep_and_advance_trace:
  "sent_requests (trace (sleep_and_advance E N mb st)) = sent_requests (trace st)"
  "logged_headers (trace (sleep_and_advance E N mb st)) = logged_headers (trace st)"
  by (simp_all add: sleep_and_advance_def sent_requests_append logged_headers_append)

lemma doJSON_tail_trace:
  "doJSON_tail E N mb st = Inl (r, tr) \<Longrightarrow> tr = trace st"
  "doJSON_tail E N mb st = Inr st' \<Longrightarrow>
     sent_requests (trace st') = sent_requests (trace st) \<and>
     logged_headers (trace st') = logged_headers (trace st)"
  by (auto simp: doJSON_tail_def sleep_and_advance_trace
      split: option.splits go_error.splits if_splits)

lemma events_ok_attempt:
  "events_ok (redactHeaders (req_header req)) req t \<Longrightarrow>
   events_ok (redactHeaders (req_header req)) req
     (t @ before_send c req a @ after_receive c req a res b)"
  by (auto simp: events_ok_def sent_requests_append logged_headers_append
      sent_requests_before_send sent_requests_after_receive logged_headers_before_send
      logged_headers_after_receive)

lemma events_ok_cong:
  "sent_requests t' = sent_requests t \<Longrightarrow> logged_headers t' = logged_headers t \<Longrightarrow>
   events_ok H req t \<Longrightarrow> events_ok H req t'"
  by (simp add: events_ok_def)

lemma doJSON_iter_events:
  assumes ok: "events_ok (redactHeaders (req_header (request_of c m u hdr inp)))
                 (request_of c m u hdr inp) (trace st)"
  shows "doJSON_iter E c m u hdr inp out N mb st = Inl (r, tr) \<Longrightarrow>
           events_ok (redactHeaders (req_header (request_of c m u hdr inp)))
             (request_of c m u hdr inp) tr"
    and "doJSON_iter E c m u hdr inp out N mb st = Inr st' \<Longrightarrow>
           events_ok (redactHeaders (req_header (request_of c m u hdr inp)))
             (request_of c m u hdr inp) (trace st')"
proof -
  let ?req = "request_of c m u hdr inp"
  let ?H = "redactHeaders (req_header ?req)"
  show "doJSON_iter E c m u hdr inp out N mb st = Inl (r, tr) \<Longrightarrow> events_ok ?H ?req tr"
    using ok events_ok_attempt [OF ok]
    by (auto simp: doJSON_iter_def Let_def request_of_def
        split: sum.splits option.splits if_splits dest!: doJSON_tail_trace(1))
  show "doJSON_iter E c m u hdr inp out N mb st = Inr st' \<Longrightarrow> events_ok ?H ?req (trace st')"
    using ok events_ok_attempt [OF ok]
    by (auto simp: doJSON_iter_def Let_def request_of_def
        split: sum.splits option.splits if_splits dest!: doJSON_tail_trace(2)
        intro: events_ok_cong)
qed


lemma events_ok_attempt_field:
  "events_ok H req (trace st) \<Longrightarrow> events_ok H req (trace (st\<lparr>attempt := a\<rparr>))"
  by simp

lemma doJSON_loop_events:
  assumes "doJSON_loop E c m u hdr inp out N mb st = Some y"
  shows "events_ok (redactHeaders (req_header (request_of c m u hdr inp))) (request_of c m u hdr inp)
     (trace st) \<longrightarrow>
   events_ok (redactHeaders (req_header (request_of c m u hdr inp))) (request_of c m u hdr inp)
     (snd y)"
proof (rule doJSON_loop.raw_induct
    [where P = "\<lambda>E c m u hdr inp out N mb st y.
       events_ok (redactHeaders (req_header (request_of c m u hdr inp))) (request_of c m u hdr inp)
         (trace st) \<longrightarrow>
       events_ok (redactHeaders (req_header (request_of c m u hdr inp))) (request_of c m u hdr inp)
         (snd y)", OF _ assms], goal_cases)
  case (1 loop E c m u hdr inp out N mb st y)
  show ?case
  proof
    assume ok: "events_ok (redactHeaders (req_header (request_of c m u hdr inp)))
        (request_of c m u hdr inp) (trace st)"
    show "events_ok (redactHeaders (req_header (request_of c m u hdr inp)))
        (request_of c m u hdr inp) (snd y)"
    proof (cases "attempt st \<le> N")
      case False
      with 1(2) ok show ?thesis by auto
    next
      case True
      show ?thesis
      proof (cases "doJSON_iter E c m u hdr inp out N mb st")
        case (Inl res)
        with True 1(2) have "y = res" by simp
        with Inl doJSON_iter_events(1) [OF ok, of E out N mb "fst y" "snd y"] show ?thesis
          by simp
      next
        case (Inr st')
        with True 1(2) have "loop E c m u hdr inp out N mb (st'\<lparr>attempt := wrap64 (attempt st' + 1)\<rparr>) = Some y"
          by simp
        moreover have "events_ok (redactHeaders (req_header (request_of c m u hdr inp)))
            (request_of c m u hdr inp) (trace (st'\<lparr>attempt := wrap64 (attempt st' + 1)\<rparr>))"
          using doJSON_iter_events(2) [OF ok Inr] by simp
        ultimately show ?thesis using 1(1) by blast
      qed
    qed
  qed
qed

lemma events_ok_Nil: "events_ok H req []"
  by (simp add: events_ok_def)

text \<open>
  \<^bold>\<open>C9\<close>, as the code has it. For an API key \<open>v\<close> longer than 8 bytes that is not itself
  of the masked form (15 bytes with the mask infix in the middle), in every run of
  \<^verbatim>\<open>doJSON\<close> with the client's authentication headers: each \<^verbatim>\<open>x-api-key\<close> value
  handed to the logger is the first four bytes of \<open>v\<close>, the infix and the last four
  bytes of \<open>v\<close>, and differs from \<open>v\<close>; each request handed to the transport carries
  \<open>v\<close> itself, so the redaction worked on a copy.
\<close>

theorem logged_api_key_is_masked:
  assumes "APIKey c = v" and "8 < length v"
    and "\<not> (length v = 15 \<and> take 7 (drop 4 v) = ellipsis)"
    and "doJSON E c m path (authHeaders c) inp out = Some (r, tr)"
  shows "(\<forall>k \<in> set (logged_api_keys tr).
            k = take 4 v @ ellipsis @ drop (length v - 4) v \<and> k \<noteq> v) \<and>
         (\<forall>k \<in> set (sent_api_keys tr). k = v)"
proof -
  let ?u = "BaseURL c @ path"
  let ?req = "request_of c m ?u (authHeaders c) inp"
  let ?H = "redactHeaders (req_header ?req)"
  have ne: "APIKey c \<noteq> []" using assms(1) assms(2) by auto
  have ok: "events_ok ?H ?req tr"
    using doJSON_loop_events [of E c m ?u "authHeaders c" inp out _ _ _ "(r, tr)"] assms(4)
    by (simp add: doJSON_def Let_def events_ok_Nil)
  have keys: "header_Get (req_header ?req) ''x-api-key'' = v"
      "header_Get ?H ''x-api-key'' = mask_value v"
    using request_api_key [OF ne] assms(1) by (simp_all add: request_of_def)
  have m: "mask_value v = take 4 v @ ellipsis @ drop (length v - 4) v"
    using assms(2) by (simp add: mask_value_def)
  have d: "mask_value v \<noteq> v"
    using assms(2) assms(3) by (rule mask_value_differs)
  show ?thesis
    using ok keys m d
    by (auto simp: events_ok_def logged_api_keys_def sent_api_keys_def)
qed

text \<open>
  \<^bold>\<open>C9\<close>, as the claim states it, fails: a 15-byte key that already has the masked
  form is logged as it is.
\<close>

theorem masked_looking_key_is_logged_unchanged:
  "8 < length masked_looking_key \<and>
   logged_and_sent_keys
     (doJSON (answering (\<lambda>n. reply 200 [] [])) (test_client\<lparr>APIKey := masked_looking_key\<rparr>)
        ''GET'' ''/warlotSql/projects/P/tables''
        (authHeaders (test_client\<lparr>APIKey := masked_looking_key\<rparr>)) None None) =
   Some ([masked_looking_key], [masked_looking_key])"
  by code_simp

theorem logged_api_key_is_masked_witness:
  "logged_and_sent_keys
     (doJSON (answering (\<lambda>n. reply 200 [] [])) test_client
        ''GET'' ''/warlotSql/projects/P/tables'' (authHeaders test_client) None None) =
   Some ([''secr'' @ ellipsis @ ''3456''], [''secret-key-123456''])"
proof -
  let ?E = "answering (\<lambda>n. reply 200 [] [])"
  let ?run = "doJSON ?E test_client ''GET'' ''/warlotSql/projects/P/tables''
      (authHeaders test_client) None None"
  obtain r tr where run: "?run = Some (r, tr)"
    and n: "length (logged_api_keys tr) = 1" "length (sent_api_keys tr) = 1"
  proof -
    have "map_option (\<lambda>(r, tr). (length (logged_api_keys tr), length (sent_api_keys tr))) ?run
        = Some (1, 1)"
      by code_simp
    then show ?thesis using that by (cases ?run) auto
  qed
  have 1: "APIKey test_client = ''secret-key-123456''" by (simp add: test_client_def)
  have 2: "8 < length ''secret-key-123456''" by simp
  have 3: "\<not> (length ''secret-key-123456'' = 15 \<and> take 7 (drop 4 ''secret-key-123456'') = ellipsis)"
    by simp
  have T: "(\<forall>k \<in> set (logged_api_keys tr).
            k = take 4 ''secret-key-123456'' @ ellipsis @ drop (length ''secret-key-123456'' - 4) ''secret-key-123456'' \<and>
            k \<noteq> ''secret-key-123456'') \<and>
         (\<forall>k \<in> set (sent_api_keys tr). k = ''secret-key-123456'')"
    using logged_api_key_is_masked [OF 1 2 3 run] .
  obtain a where a: "logged_api_keys tr = [a]" using n(1) by (cases "logged_api_keys tr") auto
  obtain b where b: "sent_api_keys tr = [b]" using n(2) by (cases "sent_api_keys tr") auto
  from T a b have "logged_api_keys tr = [''secr'' @ ellipsis @ ''3456'']"
    "sent_api_keys tr = [''secret-key-123456'']" by simp_all
  then show ?thesis using run by (simp add: logged_and_sent_keys_def)
qed

subsection \<open>Row streaming\<close>

text \<open>
  \<^bold>\<open>C6.\<close> For the body \<^verbatim>\<open>{"ok":true,"rows":[{"id":1},{"id":2},{"id":3}]}\<close> of a 200
  response, three calls of \<^verbatim>\<open>Next\<close> return true with the rows 1, 2, 3 in order; the
  fourth returns false; then \<^verbatim>\<open>Err()\<close> is nil, the body is closed, and the closing
  bracket of the array has been read (only the closing brace is left).
\<close>

theorem stream_round_trip:
  "stream_run body_ok 4 =
     Some ([(True, Some (row_id ''1'')), (True, Some (row_id ''2'')), (True, Some (row_id ''3'')),
            (False, None)], None, False, ''}'')"
  by code_simp

text \<open>
  \<^bold>\<open>C7.\<close> The claim: on the truncated body \<^verbatim>\<open>{"ok":true,"rows":[{"id":1},{"id":2}\<close>
  the third \<^verbatim>\<open>Next\<close> returns false with an error recorded. The code (lines 62-66):
  when \<^verbatim>\<open>More\<close> answers false, \<^verbatim>\<open>Next\<close> takes the end of the array for granted, and
  the error of the \<^verbatim>\<open>Token\<close> call that should read the closing bracket is discarded.
  So, under the assumption that the library's \<^verbatim>\<open>More\<close> answers false where its
  \<^verbatim>\<open>Token\<close> then fails, as the original \<^verbatim>\<open>encoding/json\<close> does at the end of the
  input: whatever that error is, \<^verbatim>\<open>Next\<close> returns false, \<^verbatim>\<open>Err()\<close> is what it was,
  and the scanner is done and closed, as on a clean end of the stream.
\<close>

theorem token_error_after_last_row_is_dropped:
  assumes "inRows s" and "\<not> finished s"
    and "\<not> Decoder_More (dec s)"
    and "Decoder_Token (dec s) = (Inl e, d)"
  shows "Next_outcome (RowScanner_Next dst s) =
     Some (False, None, RowScanner_Err s, True, False, d)"
  using assms
  by (simp add: RowScanner_Next_def decode_element_def RowScanner_Close_def RowScanner_Err_def
      Next_outcome_def)

text \<open>
  On the truncated body, with the decoder of the original \<^verbatim>\<open>encoding/json\<close>: after
  the two rows the input has ended, \<^verbatim>\<open>More\<close> is false, \<^verbatim>\<open>Token\<close> fails with
  \<^verbatim>\<open>io.EOF\<close>, and the third \<^verbatim>\<open>Next\<close> returns false with \<^verbatim>\<open>Err()\<close> nil.
\<close>

theorem truncated_stream_ends_clean:
  "scanner_after body_truncated 2 = Some truncated_scanner \<and>
   Decoder_More (dec truncated_scanner) = False \<and>
   Decoder_Token (dec truncated_scanner) = (Inl IoEOF, dec truncated_scanner) \<and>
   Next_outcome (RowScanner_Next Inr truncated_scanner) =
     Some (False, None, None, True, False, dec truncated_scanner) \<and>
   stream_run body_truncated 3 =
     Some ([(True, Some (row_id ''1'')), (True, Some (row_id ''2'')), (False, None)],
           None, False, [])"
proof -
  have a: "scanner_after body_truncated 2 = Some truncated_scanner" by code_simp
  have 1: "inRows truncated_scanner" and 2: "\<not> finished truncated_scanner"
    and e: "RowScanner_Err truncated_scanner = None"
    by (simp_all add: truncated_scanner_def RowScanner_Err_def)
  have 3: "\<not> Decoder_More (dec truncated_scanner)" by code_simp
  have 4: "Decoder_Token (dec truncated_scanner) = (Inl IoEOF, dec truncated_scanner)"
    by code_simp
  have r: "stream_run body_truncated 3 =
     Some ([(True, Some (row_id ''1'')), (True, Some (row_id ''2'')), (False, None)],
           None, False, [])"
    by code_simp
  have n: "Next_outcome (RowScanner_Next Inr truncated_scanner) =
     Some (False, None, None, True, False, dec truncated_scanner)"
    using token_error_after_last_row_is_dropped [OF 1 2 3 4, of Inr] by (simp add: e)
  from a 3 4 n r show ?thesis by simp
qed










subsection \<open>Pager\<close>

lemma pager_scenario:
  "fst (pager_run 1) = (Some [''{\"id\":1}'', ''{\"id\":2}''], None) \<and>
   fst (pager_run 2) = (Some [''{\"id\":3}'', ''{\"id\":4}''], None) \<and>
   fst (pager_run 3) = (None, None) \<and>
   snd (snd (snd (pager_run 3))) = [(2, 0), (2, 2), (2, 4)] \<and>
   Done (fst (snd (pager_run 3))) \<and>
   fst (pager_run 4) = (None, None) \<and>
   snd (pager_run 4) = snd (pager_run 3)"
  by code_simp

lemma Pager_Next_done:
  "Done p \<Longrightarrow> Pager_Next browse p w = ((None, None), p, w)"
  by (simp add: Pager_Next_def)

lemma Pager_Next_error:
  "\<not> Done p \<Longrightarrow> browse w (Project p) (Table p) (Limit p) (Offset p) = (Inl e, w') \<Longrightarrow>
   Pager_Next browse p w = ((None, Some e), p, w')"
  by (simp add: Pager_Next_def)

lemma Pager_Next_empty:
  "\<not> Done p \<Longrightarrow> browse w (Project p) (Table p) (Limit p) (Offset p) = (Inr [], w') \<Longrightarrow>
   Pager_Next browse p w = ((None, None), p\<lparr>Done := True\<rparr>, w')"
  by (simp add: Pager_Next_def)

lemma Pager_Next_rows:
  "\<not> Done p \<Longrightarrow> browse w (Project p) (Table p) (Limit p) (Offset p) = (Inr rows, w') \<Longrightarrow>
   rows \<noteq> [] \<Longrightarrow>
   Pager_Next browse p w =
     ((Some rows, None), p\<lparr>Offset := wrap64 (Offset p + int (length rows))\<rparr>, w')"
  by (simp add: Pager_Next_def)

text \<open>
  \<^bold>\<open>C8.\<close> With page size 2 and a fetch that answers 2 rows, 2 rows, then none,
  \<^verbatim>\<open>Pager.Next\<close> returns the first batch, the second batch, then (nil, nil); the
  offsets handed to Browse are 0, 2, 4; the pager is then marked done, and a further
  call returns (nil, nil) with no call of Browse (the world, which logs every call, is
  unchanged). For every fetch function: a done pager returns (nil, nil) and leaves the
  world as it is; a fetch error is returned and the pager (Offset and Done among its
  fields) is unchanged; an empty page marks the pager done; a non-empty page is
  returned and advances Offset by its length.
\<close>

theorem Pager_Next_pages:
  "fst (pager_run 1) = (Some [''{\"id\":1}'', ''{\"id\":2}''], None) \<and>
   fst (pager_run 2) = (Some [''{\"id\":3}'', ''{\"id\":4}''], None) \<and>
   fst (pager_run 3) = (None, None) \<and>
   snd (snd (snd (pager_run 3))) = [(2, 0), (2, 2), (2, 4)] \<and>
   Done (fst (snd (pager_run 3))) \<and>
   fst (pager_run 4) = (None, None) \<and>
   snd (pager_run 4) = snd (pager_run 3) \<and>
   (\<forall>(browse :: 'w browse_fn) p w.
      Done p \<longrightarrow> Pager_Next browse p w = ((None, None), p, w)) \<and>
   (\<forall>(browse :: 'w browse_fn) p w e w'.
      \<not> Done p \<and> browse w (Project p) (Table p) (Limit p) (Offset p) = (Inl e, w') \<longrightarrow>
      Pager_Next browse p w = ((None, Some e), p, w')) \<and>
   (\<forall>(browse :: 'w browse_fn) p w w'.
      \<not> Done p \<and> browse w (Project p) (Table p) (Limit p) (Offset p) = (Inr [], w') \<longrightarrow>
      Pager_Next browse p w = ((None, None), p\<lparr>Done := True\<rparr>, w')) \<and>
   (\<forall>(browse :: 'w browse_fn) p w rows w'.
      \<not> Done p \<and> browse w (Project p) (Table p) (Limit p) (Offset p) = (Inr rows, w') \<and>
      rows \<noteq> [] \<longrightarrow>
      Pager_Next browse p w =
        ((Some rows, None), p\<lparr>Offset := wrap64 (Offset p + int (length rows))\<rparr>, w'))"
proof -
  have A: "\<forall>(browse :: 'w browse_fn) p w.
      Done p \<longrightarrow> Pager_Next browse p w = ((None, None), p, w)"
    by (simp add: Pager_Next_done)
  have B: "\<forall>(browse :: 'w browse_fn) p w e w'.
      \<not> Done p \<and> browse w (Project p) (Table p) (Limit p) (Offset p) = (Inl e, w') \<longrightarrow>
      Pager_Next browse p w = ((None, Some e), p, w')"
    by (simp add: Pager_Next_error)
  have C: "\<forall>(browse :: 'w browse_fn) p w w'.
      \<not> Done p \<and> browse w (Project p) (Table p) (Limit p) (Offset p) = (Inr [], w') \<longrightarrow>
      Pager_Next browse p w = ((None, None), p\<lparr>Done := True\<rparr>, w')"
    by (simp add: Pager_Next_empty)
  have D: "\<forall>(browse :: 'w browse_fn) p w rows w'.
      \<not> Done p \<and> browse w (Project p) (Table p) (Limit p) (Offset p) = (Inr rows, w') \<and>
      rows \<noteq> [] \<longrightarrow>
      Pager_Next browse p w =
        ((Some rows, None), p\<lparr>Offset := wrap64 (Offset p + int (length rows))\<rparr>, w')"
    by (simp add: Pager_Next_rows)
  from pager_scenario A B C D show ?thesis
    by (elim conjE) (intro conjI; assumption)
qed

theorem Pager_Next_pages_witness:
  "Pager_Next scripted_browse (pager0\<lparr>Offset := 4, Done := True\<rparr>) ([], [(2, 0), (2, 2), (2, 4)]) =
     ((None, None), pager0\<lparr>Offset := 4, Done := True\<rparr>, ([], [(2, 0), (2, 2), (2, 4)])) \<and>
   Pager_Next scripted_browse pager0 ([Inl (Foreign ''timeout'')], []) =
     ((None, Some (Foreign ''timeout'')), pager0, ([], [(2, 0)])) \<and>
   Pager_Next scripted_browse (pager0\<lparr>Offset := 4\<rparr>) ([Inr []], []) =
     ((None, None), pager0\<lparr>Offset := 4, Done := True\<rparr>, ([], [(2, 4)])) \<and>
   Pager_Next scripted_browse pager0 ([Inr [''{}'', ''{}'']], []) =
     ((Some [''{}'', ''{}''], None), pager0\<lparr>Offset := 2\<rparr>, ([], [(2, 0)]))"
proof -
  have d: "Done (pager0\<lparr>Offset := 4, Done := True\<rparr>)" by simp
  have n: "\<not> Done pager0" "\<not> Done (pager0\<lparr>Offset := 4\<rparr>)" by (simp_all add: pager0_def)
  have e: "scripted_browse ([Inl (Foreign ''timeout'')], []) (Project pager0) (Table pager0)
      (Limit pager0) (Offset pager0) = (Inl (Foreign ''timeout''), ([], [(2, 0)]))"
    by (simp add: scripted_browse_def pager0_def)
  have z: "scripted_browse ([Inr []], []) (Project (pager0\<lparr>Offset := 4\<rparr>)) (Table (pager0\<lparr>Offset := 4\<rparr>))
      (Limit (pager0\<lparr>Offset := 4\<rparr>)) (Offset (pager0\<lparr>Offset := 4\<rparr>)) = (Inr [], ([], [(2, 4)]))"
    by (simp add: scripted_browse_def pager0_def)
  have r: "scripted_browse ([Inr [''{}'', ''{}'']], []) (Project pager0) (Table pager0)
      (Limit pager0) (Offset pager0) = (Inr [''{}'', ''{}''], ([], [(2, 0)]))"
    by (simp add: scripted_browse_def pager0_def)
  note T = Pager_Next_pages [where 'w = script_world]
  have 1: "Pager_Next scripted_browse (pager0\<lparr>Offset := 4, Done := True\<rparr>) ([], [(2, 0), (2, 2), (2, 4)]) =
     ((None, None), pager0\<lparr>Offset := 4, Done := True\<rparr>, ([], [(2, 0), (2, 2), (2, 4)]))"
    using T d by blast
  have 2: "Pager_Next scripted_browse pager0 ([Inl (Foreign ''timeout'')], []) =
     ((None, Some (Foreign ''timeout'')), pager0, ([], [(2, 0)]))"
    using T n(1) e by blast
  have 3: "Pager_Next scripted_browse (pager0\<lparr>Offset := 4\<rparr>) ([Inr []], []) =
     ((None, None), pager0\<lparr>Offset := 4, Done := True\<rparr>, ([], [(2, 4)]))"
    using T n(2) z by fastforce
  have 4: "Pager_Next scripted_browse pager0 ([Inr [''{}'', ''{}'']], []) =
     ((Some [''{}'', ''{}''], None), pager0\<lparr>Offset := wrap64 (Offset pager0 + int (length [''{}'', ''{}'']))\<rparr>, ([], [(2, 0)]))"
    using T n(1) r by blast
  have w: "wrap64 (Offset pager0 + int (length [''{}'', ''{}''])) = 2"
    by (simp add: wrap64_def pager0_def)
  show ?thesis using 1 2 3 4 w by simp
qed

end
